theory Spec2Isabelle
  imports
    Complex_Main
    "HOL-Library.AList"
    "HOL-Library.Multiset"
    "HOL-Library.Product_Lexorder"
    "HOL-Library.List_Lexorder"
    "HOL-Library.Char_ord"
begin

section \<open>Python values used by the index engine\<close>

text \<open>
  The exceptions that the modelled code can raise. \<open>QueryError\<close> stands for whatever the
  ClickHouse driver raises inside \<open>execute_query\<close> or \<open>client.execute\<close>;
  \<open>ValueError\<close> is raised by the engines themselves and by \<open>strptime\<close>;
  \<open>AttributeError\<close> is what \<open>None.strftime\<close> raises.
\<close>

datatype py_error = ValueError | KeyError | AttributeError | TypeError | QueryError

text \<open>
  A \<open>datetime.date\<close> is its triple (year, month, day); with the lexicographic order on
  products this is the chronological order. Python floats are idealised as real numbers.
\<close>

type_synonym pydate = "nat \<times> nat \<times> nat"

definition digit_char :: "nat \<Rightarrow> char" where
  "digit_char n = ''0123456789'' ! (n mod 10)"

definition zero_pad :: "nat \<Rightarrow> nat \<Rightarrow> string" where
  "zero_pad w n = map (\<lambda>i. digit_char (n div 10 ^ (w - Suc i))) [0..<w]"

text \<open>\<open>d.strftime('%Y-%m-%d')\<close>: four digits of year, two of month, two of day.\<close>

definition strftime :: "pydate \<Rightarrow> string" where
  "strftime d = (case d of (y, m, dd) \<Rightarrow> zero_pad 4 y @ ''-'' @ zero_pad 2 m @ ''-'' @ zero_pad 2 dd)"

text \<open>
  \<open>round(x, 4)\<close> and \<open>Series.round(4)\<close>: the nearest multiple of \<open>0.0001\<close>, a tie going to
  the even neighbour.
\<close>

definition round_half_even :: "real \<Rightarrow> int" where
  "round_half_even x =
     (let f = \<lfloor>x\<rfloor>; r = x - of_int f
      in if r < 1 / 2 then f else if 1 / 2 < r then f + 1 else if even f then f else f + 1)"

definition round4 :: "real \<Rightarrow> real" where
  "round4 x = of_int (round_half_even (x * 10000)) / 10000"

text \<open>
  \<open>dict(rows)\<close>: an insertion-ordered dictionary as an association list. A key that comes
  again keeps its position and takes the later value.
\<close>

definition py_dict :: "('k \<times> 'v) list \<Rightarrow> ('k \<times> 'v) list" where
  "py_dict rows = fold (\<lambda>row. AList.update (fst row) (snd row)) rows []"

text \<open>
  \<open>for i in range(0, len(xs), n): xs[i:i + n]\<close>, the successive slices of length \<open>n\<close>.
  Both uses in the source have a positive constant \<open>n\<close>.
\<close>

function chunks :: "nat \<Rightarrow> 'a list \<Rightarrow> 'a list list" where
  "chunks n xs = (if n = 0 \<or> xs = [] then [] else take n xs # chunks n (drop n xs))"
  by pat_completeness auto
termination
  by (relation "measure (\<lambda>(n, xs). length xs)") auto

declare chunks.simps [simp del]

section \<open>The index records and their merge\<close>

text \<open>
  An index record is the Python dict with the keys \<open>date\<close>, \<open>cavallo_index\<close>, \<open>tmall_index\<close>
  and \<open>base_date\<close>; an index key that the dict does not have is \<open>None\<close> here. The keys
  \<open>date\<close> and \<open>base_date\<close> are always present (the code reads them with \<open>idx['date']\<close>).
\<close>

record index_record =
  date :: string
  cavallo_index :: "real option"
  tmall_index :: "real option"
  base_date :: string

text \<open>
  The two loops that fill \<open>combined\<close>, identical in \<open>save_indices\<close> and
  \<open>save_indices_to_local_file\<close>. \<open>idx.get('cavallo_index', 0.0)\<close> is the value of the key
  or \<open>0.0\<close> when the record lacks it.
\<close>

definition merge_cavallo :: "index_record \<Rightarrow> (string \<times> index_record) list \<Rightarrow> (string \<times> index_record) list" where
  "merge_cavallo idx combined =
     (let d = date idx;
          combined1 = (if map_of combined d = None
                       then combined @ [(d, \<lparr>date = d, cavallo_index = None, tmall_index = None,
                                                base_date = base_date idx\<rparr>)]
                       else combined)
      in AList.map_entry d
           (\<lambda>row. row\<lparr>cavallo_index := Some (case cavallo_index idx of None \<Rightarrow> 0 | Some v \<Rightarrow> v)\<rparr>)
           combined1)"

definition merge_tmall :: "index_record \<Rightarrow> (string \<times> index_record) list \<Rightarrow> (string \<times> index_record) list" where
  "merge_tmall idx combined =
     (let d = date idx;
          combined1 = (if map_of combined d = None
                       then combined @ [(d, \<lparr>date = d, cavallo_index = None, tmall_index = None,
                                                base_date = base_date idx\<rparr>)]
                       else combined)
      in AList.map_entry d
           (\<lambda>row. row\<lparr>tmall_index := Some (case tmall_index idx of None \<Rightarrow> 0 | Some v \<Rightarrow> v)\<rparr>)
           combined1)"

definition combined_rows :: "index_record list \<Rightarrow> index_record list \<Rightarrow> (string \<times> index_record) list" where
  "combined_rows cavallo_indices tmall_indices =
     fold merge_tmall tmall_indices (fold merge_cavallo cavallo_indices [])"

text \<open>
  \<open>save_indices_to_local_file\<close>: the list \<open>records\<close> that is handed to the data frame and
  written as CSV, one dict per entry of \<open>combined\<close>, with
  \<open>float(vals.get('cavallo_index', 0.0))\<close> and \<open>float(vals.get('tmall_index', 0.0))\<close>.
\<close>

definition save_indices_to_local_file :: "index_record list \<Rightarrow> index_record list \<Rightarrow> index_record list" where
  "save_indices_to_local_file cavallo_indices tmall_indices =
     map (\<lambda>(d, vals).
            \<lparr>date = date vals,
             cavallo_index = Some (case cavallo_index vals of None \<Rightarrow> 0 | Some v \<Rightarrow> v),
             tmall_index = Some (case tmall_index vals of None \<Rightarrow> 0 | Some v \<Rightarrow> v),
             base_date = base_date vals\<rparr>)
         (combined_rows cavallo_indices tmall_indices)"

text \<open>
  \<open>save_indices\<close>: the tuples of \<open>data\<close>. \<open>datetime.strptime(s, '%Y-%m-%d').date()\<close> is a
  parameter (it raises \<open>ValueError\<close> on a string it does not accept); an index field is
  \<open>float(v)\<close> when the merged row has the key and \<open>None\<close> otherwise.
\<close>

type_synonym index_tuple = "pydate \<times> real option \<times> real option \<times> pydate"

fun data_rows :: "(string \<Rightarrow> py_error + pydate) \<Rightarrow> (string \<times> index_record) list \<Rightarrow> py_error + index_tuple list" where
  "data_rows strptime [] = Inr []"
| "data_rows strptime ((d, vals) # rest) =
     (case strptime (date vals) of
        Inl e \<Rightarrow> Inl e
      | Inr d1 \<Rightarrow>
          (case strptime (base_date vals) of
             Inl e \<Rightarrow> Inl e
           | Inr d2 \<Rightarrow>
               (case data_rows strptime rest of
                  Inl e \<Rightarrow> Inl e
                | Inr rows \<Rightarrow> Inr ((d1, cavallo_index vals, tmall_index vals, d2) # rows))))"

definition save_indices_data :: "(string \<Rightarrow> py_error + pydate) \<Rightarrow> index_record list \<Rightarrow> index_record list \<Rightarrow> py_error + index_tuple list" where
  "save_indices_data strptime cavallo_indices tmall_indices =
     data_rows strptime (combined_rows cavallo_indices tmall_indices)"

text \<open>
  \<open>ClickHouseConnector.insert_data\<close> for the table \<open>price_indices\<close> (the branches for the
  other tables convert rows of other shapes). \<open>client\<close> is \<open>self.client.execute\<close> on one
  batch: it changes the state of the store or raises.
\<close>

fun insert_batches :: "(index_tuple list \<Rightarrow> 's \<Rightarrow> py_error + 's) \<Rightarrow> index_tuple list list \<Rightarrow> 's \<Rightarrow> py_error + 's" where
  "insert_batches client [] st = Inr st"
| "insert_batches client (batch # rest) st =
     (case client batch st of Inl e \<Rightarrow> Inl e | Inr st1 \<Rightarrow> insert_batches client rest st1)"

definition insert_data :: "(index_tuple list \<Rightarrow> 's \<Rightarrow> py_error + 's) \<Rightarrow> index_tuple list \<Rightarrow> 's \<Rightarrow> py_error + 's" where
  "insert_data client data st =
     (if data = [] then Inr st else insert_batches client (chunks 50000 data) st)"

text \<open>\<open>save_indices\<close>: every exception is logged and raised again.\<close>

definition save_indices :: "(string \<Rightarrow> py_error + pydate) \<Rightarrow> (index_tuple list \<Rightarrow> 's \<Rightarrow> py_error + 's) \<Rightarrow> index_record list \<Rightarrow> index_record list \<Rightarrow> 's \<Rightarrow> py_error + 's" where
  "save_indices strptime client cavallo_indices tmall_indices st =
     (case save_indices_data strptime cavallo_indices tmall_indices of
        Inl e \<Rightarrow> Inl e
      | Inr data \<Rightarrow> if data \<noteq> [] then insert_data client data st else Inr st)"

text \<open>The order in which the distinct elements of a list first occur.\<close>

fun first_seen :: "'a list \<Rightarrow> 'a list" where
  "first_seen [] = []"
| "first_seen (x # xs) = x # filter (\<lambda>y. y \<noteq> x) (first_seen xs)"

section \<open>The fact source\<close>

text \<open>
  The queries that \<open>PriceIndexCalculator\<close> sends through \<open>self.ch.execute_query\<close>, one field
  per SQL text; each returns its rows or raises. A date parameter may be \<open>None\<close>.
\<close>

record connector =
  select_min_date :: "py_error + pydate list"
  select_distinct_dates :: "py_error + pydate list"
  select_base_prices :: "pydate option \<Rightarrow> py_error + (string \<times> real) list"
  select_prices_in :: "string list \<Rightarrow> py_error + (pydate \<times> string \<times> real) list"
  select_category_weights :: "py_error + (nat \<times> real) list"
  select_category_averages :: "pydate option \<Rightarrow> py_error + (nat \<times> real) list"

text \<open>
  \<open>_determine_base_date\<close>. An explicit date is taken as a \<open>date\<close> object, for which
  \<open>pd.to_datetime(d).date()\<close> is \<open>d\<close>. The result may be \<open>None\<close>.
\<close>

definition determine_base_date :: "connector \<Rightarrow> pydate option \<Rightarrow> py_error + pydate option" where
  "determine_base_date ch specified_date =
     (case specified_date of
        Some d \<Rightarrow> Inr (Some d)
      | None \<Rightarrow>
          (case select_min_date ch of
             Inl e \<Rightarrow> Inl e
           | Inr result \<Rightarrow> Inr (case result of [] \<Rightarrow> None | r # _ \<Rightarrow> Some r)))"

definition get_all_dates :: "connector \<Rightarrow> py_error + pydate list" where
  "get_all_dates ch = (case select_distinct_dates ch of Inl e \<Rightarrow> Inl e | Inr result \<Rightarrow> Inr result)"

definition get_base_prices :: "connector \<Rightarrow> pydate option \<Rightarrow> py_error + (string \<times> real) list" where
  "get_base_prices ch bd =
     (case select_base_prices ch bd of Inl e \<Rightarrow> Inl e | Inr result \<Rightarrow> Inr (py_dict result))"

definition get_category_weights :: "connector \<Rightarrow> py_error + (nat \<times> real) list" where
  "get_category_weights ch =
     (case select_category_weights ch of Inl e \<Rightarrow> Inl e | Inr result \<Rightarrow> Inr (py_dict result))"

definition get_category_averages :: "connector \<Rightarrow> pydate option \<Rightarrow> py_error + (nat \<times> real) list" where
  "get_category_averages ch d =
     (case select_category_averages ch d of Inl e \<Rightarrow> Inl e | Inr result \<Rightarrow> Inr (py_dict result))"

section \<open>The Cavallo engine\<close>

definition batch_size :: nat where
  "batch_size = 1000"

text \<open>The loop over the batches of product ids: \<open>all_price_rows.extend(rows)\<close>.\<close>

fun fetch_batches :: "connector \<Rightarrow> string list list \<Rightarrow> py_error + (pydate \<times> string \<times> real) list" where
  "fetch_batches ch [] = Inr []"
| "fetch_batches ch (batch # rest) =
     (case select_prices_in ch batch of
        Inl e \<Rightarrow> Inl e
      | Inr rows \<Rightarrow>
          (case fetch_batches ch rest of Inl e \<Rightarrow> Inl e | Inr later \<Rightarrow> Inr (rows @ later)))"

text \<open>\<open>df.merge(base_df, on='product_id', how='inner')\<close>; \<open>base_df\<close> has one row per product.\<close>

definition merge_base :: "(pydate \<times> string \<times> real) list \<Rightarrow> (string \<times> real) list \<Rightarrow> (pydate \<times> string \<times> real \<times> real) list" where
  "merge_base df base_prices =
     concat (map (\<lambda>(d, pid, p). case map_of base_prices pid of
                                    None \<Rightarrow> []
                                  | Some bp \<Rightarrow> [(d, pid, p, bp)]) df)"

text \<open>The filter on positive prices and the column \<open>log_ratio\<close>.\<close>

definition log_ratios :: "(pydate \<times> string \<times> real \<times> real) list \<Rightarrow> (pydate \<times> real) list" where
  "log_ratios df =
     map (\<lambda>(d, pid, p, bp). (d, ln (p / bp)))
         (filter (\<lambda>(d, pid, p, bp). p > 0 \<and> bp > 0) df)"

definition mean :: "real list \<Rightarrow> real" where
  "mean xs = sum_list xs / real (length xs)"

text \<open>\<open>df.groupby('date')['log_ratio'].mean().reset_index()\<close>: the groups in ascending date.\<close>

definition grouped_mean :: "(pydate \<times> real) list \<Rightarrow> (pydate \<times> real) list" where
  "grouped_mean df =
     map (\<lambda>d. (d, mean (map snd (filter (\<lambda>row. fst row = d) df))))
         (sort (remdups (map fst df)))"

definition cavallo_records :: "pydate \<Rightarrow> (pydate \<times> real) list \<Rightarrow> index_record list" where
  "cavallo_records bd grouped =
     map (\<lambda>(d, m). \<lparr>date = strftime d, cavallo_index = Some (round4 (exp m * 100)),
                    tmall_index = None, base_date = strftime bd\<rparr>) grouped"

text \<open>The body of the \<open>try\<close> block of \<open>calculate_cavallo_index\<close>.\<close>

definition cavallo_try :: "connector \<Rightarrow> pydate option \<Rightarrow> py_error + index_record list" where
  "cavallo_try ch specified_date =
     (case determine_base_date ch specified_date of
        Inl e \<Rightarrow> Inl e
      | Inr bdate \<Rightarrow>
     (case get_base_prices ch bdate of
        Inl e \<Rightarrow> Inl e
      | Inr base_prices \<Rightarrow>
     if base_prices = [] then Inl ValueError
     else
     (case fetch_batches ch (chunks batch_size (map fst base_prices)) of
        Inl e \<Rightarrow> Inl e
      | Inr all_price_rows \<Rightarrow>
     if all_price_rows = [] then Inl ValueError
     else
     (case bdate of
        None \<Rightarrow> Inl AttributeError
      | Some bd \<Rightarrow>
          Inr (cavallo_records bd (grouped_mean (log_ratios (merge_base all_price_rows base_prices))))))))"

text \<open>\<open>except Exception\<close>: the error is logged and the empty list returned.\<close>

definition calculate_cavallo_index :: "connector \<Rightarrow> pydate option \<Rightarrow> index_record list" where
  "calculate_cavallo_index ch specified_date =
     (case cavallo_try ch specified_date of Inl e \<Rightarrow> [] | Inr results \<Rightarrow> results)"

section \<open>The Tmall engine\<close>

text \<open>
  The inner loop over \<open>current_avg.items()\<close>: the pair (\<open>weighted_sum\<close>, \<open>total_weight\<close>).
\<close>

definition accumulate :: "(nat \<times> real) list \<Rightarrow> (nat \<times> real) list \<Rightarrow> nat \<times> real \<Rightarrow> real \<times> real \<Rightarrow> real \<times> real" where
  "accumulate category_weights base_avg item acc =
     (case map_of base_avg (fst item) of
        None \<Rightarrow> acc
      | Some b \<Rightarrow>
          if b > 0
          then (let weight = (case map_of category_weights (fst item) of None \<Rightarrow> 0 | Some w \<Rightarrow> w);
                    ratio = snd item / b
                in (fst acc + ratio * weight, snd acc + weight))
          else acc)"

definition weighted_totals :: "(nat \<times> real) list \<Rightarrow> (nat \<times> real) list \<Rightarrow> (nat \<times> real) list \<Rightarrow> real \<times> real" where
  "weighted_totals category_weights base_avg current_avg =
     fold (accumulate category_weights base_avg) current_avg (0, 0)"

definition tmall_value :: "(nat \<times> real) list \<Rightarrow> (nat \<times> real) list \<Rightarrow> (nat \<times> real) list \<Rightarrow> real" where
  "tmall_value category_weights base_avg current_avg =
     (let totals = weighted_totals category_weights base_avg current_avg
      in if snd totals > 0 then (fst totals / snd totals) * 100 else 0)"

fun tmall_loop :: "connector \<Rightarrow> (nat \<times> real) list \<Rightarrow> (nat \<times> real) list \<Rightarrow> pydate option \<Rightarrow> pydate list \<Rightarrow> py_error + index_record list" where
  "tmall_loop ch category_weights base_avg bdate [] = Inr []"
| "tmall_loop ch category_weights base_avg bdate (d # dates) =
     (case get_category_averages ch (Some d) of
        Inl e \<Rightarrow> Inl e
      | Inr current_avg \<Rightarrow>
          if current_avg = [] then tmall_loop ch category_weights base_avg bdate dates
          else
            (case bdate of
               None \<Rightarrow> Inl AttributeError
             | Some bd \<Rightarrow>
                 (case tmall_loop ch category_weights base_avg bdate dates of
                    Inl e \<Rightarrow> Inl e
                  | Inr results \<Rightarrow>
                      Inr (\<lparr>date = strftime d, cavallo_index = None,
                            tmall_index = Some (round4 (tmall_value category_weights base_avg current_avg)),
                            base_date = strftime bd\<rparr> # results))))"

definition tmall_try :: "connector \<Rightarrow> pydate option \<Rightarrow> py_error + index_record list" where
  "tmall_try ch specified_date =
     (case determine_base_date ch specified_date of
        Inl e \<Rightarrow> Inl e
      | Inr bdate \<Rightarrow>
     (case get_category_weights ch of
        Inl e \<Rightarrow> Inl e
      | Inr category_weights \<Rightarrow>
     if category_weights = [] then Inl ValueError
     else
     (case get_category_averages ch bdate of
        Inl e \<Rightarrow> Inl e
      | Inr base_avg \<Rightarrow>
     if base_avg = [] then Inl ValueError
     else
     (case get_all_dates ch of
        Inl e \<Rightarrow> Inl e
      | Inr dates \<Rightarrow> tmall_loop ch category_weights base_avg bdate dates))))"

definition calculate_tmall_index :: "connector \<Rightarrow> pydate option \<Rightarrow> index_record list" where
  "calculate_tmall_index ch specified_date =
     (case tmall_try ch specified_date of Inl e \<Rightarrow> [] | Inr results \<Rightarrow> results)"

section \<open>The tables behind the queries\<close>

text \<open>
  The tables \<open>daily_prices\<close> and \<open>categories\<close> of \<open>initialize_tables\<close> (of \<open>categories\<close> the
  two columns that are read), and what each SQL text of the calculator selects from them.
  A query on these tables does not raise. Rows come in the order of the table; groups in
  the order in which they first occur. A comparison with a NULL date selects nothing, and
  \<open>min(date)\<close> over no rows is the default date of ClickHouse.
\<close>

record price_row =
  row_date :: pydate
  product_id :: string
  category_id :: nat
  price :: real

record database =
  daily_prices :: "price_row list"
  categories :: "(nat \<times> real) list"

definition rows_at :: "database \<Rightarrow> pydate option \<Rightarrow> price_row list" where
  "rows_at db d = filter (\<lambda>r. Some (row_date r) = d) (daily_prices db)"

definition category_averages :: "database \<Rightarrow> pydate option \<Rightarrow> (nat \<times> real) list" where
  "category_averages db d =
     map (\<lambda>c. (c, mean (map price (filter (\<lambda>r. category_id r = c) (rows_at db d)))))
         (first_seen (map category_id (rows_at db d)))"

definition clickhouse :: "database \<Rightarrow> connector" where
  "clickhouse db =
     \<lparr>select_min_date =
        Inr [case sort (map row_date (daily_prices db)) of [] \<Rightarrow> (1970, 1, 1) | d # _ \<Rightarrow> d],
      select_distinct_dates = Inr (sort (remdups (map row_date (daily_prices db)))),
      select_base_prices = (\<lambda>d. Inr (map (\<lambda>r. (product_id r, price r)) (rows_at db d))),
      select_prices_in =
        (\<lambda>pids. Inr (map (\<lambda>r. (row_date r, product_id r, price r))
                        (filter (\<lambda>r. product_id r \<in> set pids) (daily_prices db)))),
      select_category_weights = Inr (categories db),
      select_category_averages = (\<lambda>d. Inr (category_averages db d))\<rparr>"

text \<open>
  The single unrestricted query of the specification: the rows of \<open>daily_prices\<close> for the
  whole product set, selected at once.
\<close>

definition single_query :: "database \<Rightarrow> string list \<Rightarrow> (pydate \<times> string \<times> real) list" where
  "single_query db product_ids =
     map (\<lambda>r. (row_date r, product_id r, price r))
         (filter (\<lambda>r. product_id r \<in> set product_ids) (daily_prices db))"


section \<open>Auxiliary notions\<close>

text \<open>
  The invariant of the two merge loops: \<open>C\<close> and \<open>T\<close> are the dates of the Cavallo and of
  the Tmall records merged so far.
\<close>

definition well_merged :: "string set \<Rightarrow> string set \<Rightarrow> (string \<times> index_record) list \<Rightarrow> bool" where
  "well_merged C T combined \<longleftrightarrow>
     distinct (map fst combined) \<and> fst ` set combined = C \<union> T \<and>
     (\<forall>p \<in> set combined. date (snd p) = fst p \<and> (cavallo_index (snd p) = None \<longleftrightarrow> fst p \<notin> C)
        \<and> (tmall_index (snd p) = None \<longleftrightarrow> fst p \<notin> T))"

text \<open>
  Sample data: \<open>strptime\<close> on the three date strings that the examples use, and the records
  that the two engines emit.
\<close>

definition ex_strptime :: "string \<Rightarrow> py_error + pydate" where
  "ex_strptime s =
     (if s = ''2024-01-01'' then Inr (2024, 1, 1)
      else if s = ''2024-01-02'' then Inr (2024, 1, 2)
      else if s = ''2024-01-03'' then Inr (2024, 1, 3)
      else Inl ValueError)"

definition ex_cavallo :: "string \<Rightarrow> real \<Rightarrow> index_record" where
  "ex_cavallo d v = \<lparr>date = d, cavallo_index = Some v, tmall_index = None, base_date = ''2024-01-01''\<rparr>"

definition ex_tmall :: "string \<Rightarrow> real \<Rightarrow> index_record" where
  "ex_tmall d v = \<lparr>date = d, cavallo_index = None, tmall_index = Some v, base_date = ''2024-01-01''\<rparr>"

text \<open>
  A source without any row, a source on which every query raises, and a small fact table:
  product \<open>P1\<close> costs 10 on the base date and 12 on the next day.
\<close>

definition empty_source :: connector where
  "empty_source =
     \<lparr>select_min_date = Inr [], select_distinct_dates = Inr [],
      select_base_prices = (\<lambda>d. Inr []), select_prices_in = (\<lambda>pids. Inr []),
      select_category_weights = Inr [], select_category_averages = (\<lambda>d. Inr [])\<rparr>"

definition failing_source :: connector where
  "failing_source =
     \<lparr>select_min_date = Inl QueryError, select_distinct_dates = Inl QueryError,
      select_base_prices = (\<lambda>d. Inl QueryError), select_prices_in = (\<lambda>pids. Inl QueryError),
      select_category_weights = Inl QueryError, select_category_averages = (\<lambda>d. Inl QueryError)\<rparr>"

definition ex_db :: database where
  "ex_db =
     \<lparr>daily_prices =
        [\<lparr>row_date = (2024, 1, 1), product_id = ''P1'', category_id = 1, price = 10\<rparr>,
         \<lparr>row_date = (2024, 1, 2), product_id = ''P1'', category_id = 1, price = 12\<rparr>],
      categories = [(1, 1)]\<rparr>"

text \<open>
  Further sample tables: a second day whose only category has neither a weight nor a base
  average; a single category of weight zero; two categories whose weights cancel.
\<close>

definition ex_db_unweighted :: database where
  "ex_db_unweighted =
     \<lparr>daily_prices =
        [\<lparr>row_date = (2024, 1, 1), product_id = ''P1'', category_id = 1, price = 10\<rparr>,
         \<lparr>row_date = (2024, 1, 2), product_id = ''P2'', category_id = 2, price = 5\<rparr>],
      categories = [(1, 1)]\<rparr>"

definition ex_db_zero_weight :: database where
  "ex_db_zero_weight =
     \<lparr>daily_prices =
        [\<lparr>row_date = (2024, 1, 1), product_id = ''P1'', category_id = 1, price = 10\<rparr>],
      categories = [(1, 0)]\<rparr>"

definition ex_db_cancelling :: database where
  "ex_db_cancelling =
     \<lparr>daily_prices =
        [\<lparr>row_date = (2024, 1, 1), product_id = ''P1'', category_id = 1, price = 10\<rparr>,
         \<lparr>row_date = (2024, 1, 1), product_id = ''P2'', category_id = 2, price = 20\<rparr>],
      categories = [(1, 1), (2, - 1)]\<rparr>"

text \<open>
  A table without category weights, and a table whose price falls from 3 to 1, so that
  both indices of the second day are 100/3 before rounding.
\<close>

definition ex_db_no_weights :: database where
  "ex_db_no_weights =
     \<lparr>daily_prices =
        [\<lparr>row_date = (2024, 1, 1), product_id = ''P1'', category_id = 1, price = 10\<rparr>],
      categories = []\<rparr>"

definition ex_db_thirds :: database where
  "ex_db_thirds =
     \<lparr>daily_prices =
        [\<lparr>row_date = (2024, 1, 1), product_id = ''P1'', category_id = 1, price = 3\<rparr>,
         \<lparr>row_date = (2024, 1, 2), product_id = ''P1'', category_id = 1, price = 1\<rparr>],
      categories = [(1, 1)]\<rparr>"

text \<open>
  The record that the Tmall loop appends for a date, and the weight that one item of
  \<open>current_avg\<close> adds to \<open>total_weight\<close>.
\<close>

definition tmall_record :: "database \<Rightarrow> pydate \<Rightarrow> pydate \<Rightarrow> index_record" where
  "tmall_record db bd d =
     \<lparr>date = strftime d, cavallo_index = None,
      tmall_index = Some (round4 (tmall_value (py_dict (categories db))
                                  (category_averages db (Some bd)) (category_averages db (Some d)))),
      base_date = strftime bd\<rparr>"

definition contribution :: "(nat \<times> real) list \<Rightarrow> (nat \<times> real) list \<Rightarrow> nat \<times> real \<Rightarrow> real" where
  "contribution ws ba item =
     (case map_of ba (fst item) of
        None \<Rightarrow> 0
      | Some b \<Rightarrow> if b > 0 then (case map_of ws (fst item) of None \<Rightarrow> 0 | Some w \<Rightarrow> w) else 0)"


section \<open>Properties of the merge\<close>

lemmas ex_defs = ex_strptime_def ex_cavallo_def ex_tmall_def
lemmas merge_defs = save_indices_to_local_file_def save_indices_data_def combined_rows_def
  merge_cavallo_def merge_tmall_def Let_def


lemma map_entry_distinct:
  "distinct (map fst xs) \<Longrightarrow>
   AList.map_entry k f xs = map (\<lambda>p. if fst p = k then (fst p, f (snd p)) else p) xs"
  by (induction xs) (auto simp: rev_image_eqI intro!: map_idI[symmetric])

lemma keys_map_entry: "map fst (AList.map_entry k f xs) = map fst xs"
  by (induction xs) auto

lemma keys_merge_cavallo:
  "map fst (merge_cavallo idx combined) =
     (if date idx \<in> set (map fst combined) then map fst combined else map fst combined @ [date idx])"
  by (auto simp: merge_cavallo_def Let_def keys_map_entry map_of_eq_None_iff)

lemma keys_merge_tmall:
  "map fst (merge_tmall idx combined) =
     (if date idx \<in> set (map fst combined) then map fst combined else map fst combined @ [date idx])"
  by (auto simp: merge_tmall_def Let_def keys_map_entry map_of_eq_None_iff)

lemma set_first_seen [simp]: "set (first_seen xs) = set xs"
  by (induction xs) auto

lemma distinct_first_seen [simp]: "distinct (first_seen xs)"
  by (induction xs) auto

lemma first_seen_append:
  "first_seen (xs @ ys) = first_seen xs @ filter (\<lambda>y. y \<notin> set xs) (first_seen ys)"
proof (induction xs)
  case Nil
  show ?case by simp
next
  case (Cons x xs)
  have "filter (\<lambda>y. y \<noteq> x) (filter (\<lambda>y. y \<notin> set xs) (first_seen ys))
        = filter (\<lambda>y. y \<notin> set (x # xs)) (first_seen ys)"
    by (auto intro: filter_cong)
  with Cons show ?case by simp
qed

lemma keys_fold_step:
  assumes step: "\<And>idx combined. map fst (f idx combined) =
     (if date idx \<in> set (map fst combined) then map fst combined else map fst combined @ [date idx])"
  shows "map fst (fold f xs acc) =
         map fst acc @ filter (\<lambda>d. d \<notin> set (map fst acc)) (first_seen (map date xs))"
proof (induction xs arbitrary: acc)
  case Nil
  show ?case by simp
next
  case (Cons x xs)
  show ?case
  proof (cases "date x \<in> set (map fst acc)")
    case True
    have "filter (\<lambda>d. d \<notin> set (map fst acc)) (filter (\<lambda>y. y \<noteq> date x) (first_seen (map date xs)))
          = filter (\<lambda>d. d \<notin> set (map fst acc)) (first_seen (map date xs))"
      using True by (auto intro: filter_cong)
    with True show ?thesis by (simp add: Cons.IH step)
  next
    case False
    have "filter (\<lambda>d. d \<notin> set (map fst acc)) (filter (\<lambda>y. y \<noteq> date x) (first_seen (map date xs)))
          = filter (\<lambda>d. d \<noteq> date x \<and> d \<notin> set (map fst acc)) (first_seen (map date xs))"
      by (auto intro: filter_cong)
    with False show ?thesis by (simp add: Cons.IH step)
  qed
qed

lemma keys_combined_rows:
  "map fst (combined_rows c t) = first_seen (map date (c @ t))"
  by (simp add: combined_rows_def keys_fold_step[of merge_tmall, OF keys_merge_tmall]
      keys_fold_step[of merge_cavallo, OF keys_merge_cavallo] first_seen_append)



lemma map_entry_absent: "k \<notin> fst ` set xs \<Longrightarrow> AList.map_entry k f xs = xs"
  by (induction xs) auto

lemma map_entry_append_new:
  "k \<notin> fst ` set xs \<Longrightarrow> AList.map_entry k f (xs @ [(k, v)]) = xs @ [(k, f v)]"
  by (induction xs) auto

lemma merge_cavallo_new:
  "date idx \<notin> fst ` set combined \<Longrightarrow>
   merge_cavallo idx combined =
     combined @ [(date idx, \<lparr>date = date idx,
        cavallo_index = Some (case cavallo_index idx of None \<Rightarrow> 0 | Some v \<Rightarrow> v),
        tmall_index = None, base_date = base_date idx\<rparr>)]"
  by (simp add: merge_cavallo_def Let_def map_of_eq_None_iff map_entry_append_new)

lemma merge_cavallo_old:
  "date idx \<in> fst ` set combined \<Longrightarrow> distinct (map fst combined) \<Longrightarrow>
   merge_cavallo idx combined =
     map (\<lambda>p. if fst p = date idx
               then (fst p, (snd p)\<lparr>cavallo_index := Some (case cavallo_index idx of None \<Rightarrow> 0 | Some v \<Rightarrow> v)\<rparr>)
               else p) combined"
  by (simp add: merge_cavallo_def Let_def map_of_eq_None_iff map_entry_distinct)

lemma merge_tmall_new:
  "date idx \<notin> fst ` set combined \<Longrightarrow>
   merge_tmall idx combined =
     combined @ [(date idx, \<lparr>date = date idx, cavallo_index = None,
        tmall_index = Some (case tmall_index idx of None \<Rightarrow> 0 | Some v \<Rightarrow> v),
        base_date = base_date idx\<rparr>)]"
  by (simp add: merge_tmall_def Let_def map_of_eq_None_iff map_entry_append_new)

lemma merge_tmall_old:
  "date idx \<in> fst ` set combined \<Longrightarrow> distinct (map fst combined) \<Longrightarrow>
   merge_tmall idx combined =
     map (\<lambda>p. if fst p = date idx
               then (fst p, (snd p)\<lparr>tmall_index := Some (case tmall_index idx of None \<Rightarrow> 0 | Some v \<Rightarrow> v)\<rparr>)
               else p) combined"
  by (simp add: merge_tmall_def Let_def map_of_eq_None_iff map_entry_distinct)


lemma well_merged_row:
  "well_merged C T combined \<Longrightarrow> p \<in> set combined \<Longrightarrow>
     date (snd p) = fst p \<and> (cavallo_index (snd p) = None \<longleftrightarrow> fst p \<notin> C)
        \<and> (tmall_index (snd p) = None \<longleftrightarrow> fst p \<notin> T)"
  by (simp add: well_merged_def)

lemma well_merged_keys:
  "well_merged C T combined \<Longrightarrow> distinct (map fst combined)"
  "well_merged C T combined \<Longrightarrow> fst ` set combined = C \<union> T"
  by (simp_all add: well_merged_def)

lemma well_merged_cavallo_new:
  assumes wm: "well_merged C T combined" and new: "date idx \<notin> fst ` set combined"
  shows "well_merged (insert (date idx) C) T (merge_cavallo idx combined)"
proof -
  from new have notin: "date idx \<notin> C" "date idx \<notin> T"
    by (simp_all add: well_merged_keys(2)[OF wm])
  have "distinct (map fst (merge_cavallo idx combined))"
    using well_merged_keys(1)[OF wm] new by (simp add: merge_cavallo_new[OF new])
  moreover have "fst ` set (merge_cavallo idx combined) = insert (date idx) C \<union> T"
    using well_merged_keys(2)[OF wm] by (simp add: merge_cavallo_new[OF new])
  moreover have "\<forall>p \<in> set (merge_cavallo idx combined).
     date (snd p) = fst p \<and> (cavallo_index (snd p) = None \<longleftrightarrow> fst p \<notin> insert (date idx) C)
       \<and> (tmall_index (snd p) = None \<longleftrightarrow> fst p \<notin> T)"
  proof
    fix p assume "p \<in> set (merge_cavallo idx combined)"
    then consider "p \<in> set combined"
      | "p = (date idx, \<lparr>date = date idx,
        cavallo_index = Some (case cavallo_index idx of None \<Rightarrow> 0 | Some v \<Rightarrow> v),
        tmall_index = None, base_date = base_date idx\<rparr>)"
      by (auto simp: merge_cavallo_new[OF new])
    then show "date (snd p) = fst p \<and> (cavallo_index (snd p) = None \<longleftrightarrow> fst p \<notin> insert (date idx) C)
       \<and> (tmall_index (snd p) = None \<longleftrightarrow> fst p \<notin> T)"
    proof cases
      case 1
      then have "fst p \<noteq> date idx" using new by (metis imageI)
      with well_merged_row[OF wm 1] show ?thesis by simp
    next
      case 2
      with notin show ?thesis by simp
    qed
  qed
  ultimately show ?thesis by (simp add: well_merged_def)
qed


lemma well_merged_cavallo_old:
  assumes wm: "well_merged C T combined" and old: "date idx \<in> fst ` set combined"
  shows "well_merged (insert (date idx) C) T (merge_cavallo idx combined)"
proof -
  note dist = well_merged_keys(1)[OF wm]
  have keys: "map fst (merge_cavallo idx combined) = map fst combined"
    using old by (simp add: keys_merge_cavallo)
  have "distinct (map fst (merge_cavallo idx combined))"
    using dist by (simp only: keys)
  moreover have "fst ` set (merge_cavallo idx combined) = insert (date idx) C \<union> T"
  proof -
    have "fst ` set (merge_cavallo idx combined) = set (map fst (merge_cavallo idx combined))"
      by simp
    also have "\<dots> = C \<union> T"
      using well_merged_keys(2)[OF wm] by (simp add: keys)
    also have "\<dots> = insert (date idx) C \<union> T"
      using old well_merged_keys(2)[OF wm] by auto
    finally show ?thesis .
  qed
  moreover have "\<forall>p \<in> set (merge_cavallo idx combined).
     date (snd p) = fst p \<and> (cavallo_index (snd p) = None \<longleftrightarrow> fst p \<notin> insert (date idx) C)
       \<and> (tmall_index (snd p) = None \<longleftrightarrow> fst p \<notin> T)"
  proof
    fix p assume "p \<in> set (merge_cavallo idx combined)"
    then have "p \<in> (\<lambda>q. if fst q = date idx
               then (fst q, (snd q)\<lparr>cavallo_index := Some (case cavallo_index idx of None \<Rightarrow> 0 | Some v \<Rightarrow> v)\<rparr>)
               else q) ` set combined"
      unfolding merge_cavallo_old[OF old dist] by (simp only: set_map)
    then obtain q where q: "q \<in> set combined"
      and p: "p = (if fst q = date idx
               then (fst q, (snd q)\<lparr>cavallo_index := Some (case cavallo_index idx of None \<Rightarrow> 0 | Some v \<Rightarrow> v)\<rparr>)
               else q)"
      by (rule imageE)
    from well_merged_row[OF wm q] p
    show "date (snd p) = fst p \<and> (cavallo_index (snd p) = None \<longleftrightarrow> fst p \<notin> insert (date idx) C)
       \<and> (tmall_index (snd p) = None \<longleftrightarrow> fst p \<notin> T)"
      by (cases "fst q = date idx") simp_all
  qed
  ultimately show ?thesis by (simp add: well_merged_def)
qed

lemma well_merged_cavallo:
  "well_merged C T combined \<Longrightarrow> well_merged (insert (date idx) C) T (merge_cavallo idx combined)"
  by (cases "date idx \<in> fst ` set combined")
     (simp_all add: well_merged_cavallo_new well_merged_cavallo_old)

lemma well_merged_tmall_new:
  assumes wm: "well_merged C T combined" and new: "date idx \<notin> fst ` set combined"
  shows "well_merged C (insert (date idx) T) (merge_tmall idx combined)"
proof -
  from new have notin: "date idx \<notin> C" "date idx \<notin> T"
    by (simp_all add: well_merged_keys(2)[OF wm])
  have "distinct (map fst (merge_tmall idx combined))"
    using well_merged_keys(1)[OF wm] new by (simp add: merge_tmall_new[OF new])
  moreover have "fst ` set (merge_tmall idx combined) = C \<union> insert (date idx) T"
    using well_merged_keys(2)[OF wm] by (simp add: merge_tmall_new[OF new])
  moreover have "\<forall>p \<in> set (merge_tmall idx combined).
     date (snd p) = fst p \<and> (cavallo_index (snd p) = None \<longleftrightarrow> fst p \<notin> C)
       \<and> (tmall_index (snd p) = None \<longleftrightarrow> fst p \<notin> insert (date idx) T)"
  proof
    fix p assume "p \<in> set (merge_tmall idx combined)"
    then consider "p \<in> set combined"
      | "p = (date idx, \<lparr>date = date idx,
        cavallo_index = None,
        tmall_index = Some (case tmall_index idx of None \<Rightarrow> 0 | Some v \<Rightarrow> v), base_date = base_date idx\<rparr>)"
      by (auto simp: merge_tmall_new[OF new])
    then show "date (snd p) = fst p \<and> (cavallo_index (snd p) = None \<longleftrightarrow> fst p \<notin> C)
       \<and> (tmall_index (snd p) = None \<longleftrightarrow> fst p \<notin> insert (date idx) T)"
    proof cases
      case 1
      then have "fst p \<noteq> date idx" using new by (metis imageI)
      with well_merged_row[OF wm 1] show ?thesis by simp
    next
      case 2
      with notin show ?thesis by simp
    qed
  qed
  ultimately show ?thesis by (simp add: well_merged_def)
qed


lemma well_merged_tmall_old:
  assumes wm: "well_merged C T combined" and old: "date idx \<in> fst ` set combined"
  shows "well_merged C (insert (date idx) T) (merge_tmall idx combined)"
proof -
  note dist = well_merged_keys(1)[OF wm]
  have keys: "map fst (merge_tmall idx combined) = map fst combined"
    using old by (simp add: keys_merge_tmall)
  have "distinct (map fst (merge_tmall idx combined))"
    using dist by (simp only: keys)
  moreover have "fst ` set (merge_tmall idx combined) = C \<union> insert (date idx) T"
  proof -
    have "fst ` set (merge_tmall idx combined) = set (map fst (merge_tmall idx combined))"
      by simp
    also have "\<dots> = C \<union> T"
      using well_merged_keys(2)[OF wm] by (simp add: keys)
    also have "\<dots> = C \<union> insert (date idx) T"
      using old well_merged_keys(2)[OF wm] by auto
    finally show ?thesis .
  qed
  moreover have "\<forall>p \<in> set (merge_tmall idx combined).
     date (snd p) = fst p \<and> (cavallo_index (snd p) = None \<longleftrightarrow> fst p \<notin> C)
       \<and> (tmall_index (snd p) = None \<longleftrightarrow> fst p \<notin> insert (date idx) T)"
  proof
    fix p assume "p \<in> set (merge_tmall idx combined)"
    then have "p \<in> (\<lambda>q. if fst q = date idx
               then (fst q, (snd q)\<lparr>tmall_index := Some (case tmall_index idx of None \<Rightarrow> 0 | Some v \<Rightarrow> v)\<rparr>)
               else q) ` set combined"
      unfolding merge_tmall_old[OF old dist] by (simp only: set_map)
    then obtain q where q: "q \<in> set combined"
      and p: "p = (if fst q = date idx
               then (fst q, (snd q)\<lparr>tmall_index := Some (case tmall_index idx of None \<Rightarrow> 0 | Some v \<Rightarrow> v)\<rparr>)
               else q)"
      by (rule imageE)
    from well_merged_row[OF wm q] p
    show "date (snd p) = fst p \<and> (cavallo_index (snd p) = None \<longleftrightarrow> fst p \<notin> C)
       \<and> (tmall_index (snd p) = None \<longleftrightarrow> fst p \<notin> insert (date idx) T)"
      by (cases "fst q = date idx") simp_all
  qed
  ultimately show ?thesis by (simp add: well_merged_def)
qed

lemma well_merged_tmall:
  "well_merged C T combined \<Longrightarrow> well_merged C (insert (date idx) T) (merge_tmall idx combined)"
  by (cases "date idx \<in> fst ` set combined")
     (simp_all add: well_merged_tmall_new well_merged_tmall_old)


lemma well_merged_fold_cavallo:
  "well_merged C T acc \<Longrightarrow> well_merged (C \<union> date ` set xs) T (fold merge_cavallo xs acc)"
proof (induction xs arbitrary: C acc)
  case Nil
  then show ?case by simp
next
  case (Cons x xs)
  from Cons.IH[OF well_merged_cavallo[OF Cons.prems, of x]]
  show ?case by simp
qed

lemma well_merged_fold_tmall:
  "well_merged C T acc \<Longrightarrow> well_merged C (T \<union> date ` set xs) (fold merge_tmall xs acc)"
proof (induction xs arbitrary: T acc)
  case Nil
  then show ?case by simp
next
  case (Cons x xs)
  from Cons.IH[OF well_merged_tmall[OF Cons.prems, of x]]
  show ?case by simp
qed

lemma well_merged_combined_rows:
  "well_merged (date ` set c) (date ` set t) (combined_rows c t)"
proof -
  have "well_merged {} {} []" by (simp add: well_merged_def)
  from well_merged_fold_cavallo[OF this, of c]
  have "well_merged (date ` set c) {} (fold merge_cavallo c [])" by simp
  from well_merged_fold_tmall[OF this, of t]
  show ?thesis by (simp add: combined_rows_def)
qed

lemma combined_rows_date:
  "p \<in> set (combined_rows c t) \<Longrightarrow> date (snd p) = fst p"
  using well_merged_row[OF well_merged_combined_rows] by blast

lemma local_file_dates:
  "map date (save_indices_to_local_file c t) = first_seen (map date (c @ t))"
proof -
  have "map date (save_indices_to_local_file c t) = map (\<lambda>p. date (snd p)) (combined_rows c t)"
    by (simp add: save_indices_to_local_file_def split_beta comp_def)
  also have "\<dots> = map fst (combined_rows c t)"
    by (rule map_cong) (simp_all add: combined_rows_date)
  finally show ?thesis by (simp only: keys_combined_rows)
qed

lemma local_file_defaults:
  assumes "r \<in> set (save_indices_to_local_file c t)"
  shows "cavallo_index r \<noteq> None" "tmall_index r \<noteq> None"
    "date r \<notin> date ` set c \<Longrightarrow> cavallo_index r = Some 0"
    "date r \<notin> date ` set t \<Longrightarrow> tmall_index r = Some 0"
proof -
  from assms obtain p where p: "p \<in> set (combined_rows c t)"
    and r: "r = \<lparr>date = date (snd p),
             cavallo_index = Some (case cavallo_index (snd p) of None \<Rightarrow> 0 | Some v \<Rightarrow> v),
             tmall_index = Some (case tmall_index (snd p) of None \<Rightarrow> 0 | Some v \<Rightarrow> v),
             base_date = base_date (snd p)\<rparr>"
    unfolding save_indices_to_local_file_def set_map split_beta by (rule imageE)
  note row = well_merged_row[OF well_merged_combined_rows p]
  show "cavallo_index r \<noteq> None" "tmall_index r \<noteq> None" by (simp_all add: r)
  show "cavallo_index r = Some 0" if "date r \<notin> date ` set c"
    using that row by (simp add: r)
  show "tmall_index r = Some 0" if "date r \<notin> date ` set t"
    using that row by (simp add: r)
qed

lemma data_rows_Inr:
  "data_rows strptime combined = Inr rows \<Longrightarrow>
     map (\<lambda>r. (fst (snd r), fst (snd (snd r)))) rows
       = map (\<lambda>p. (cavallo_index (snd p), tmall_index (snd p))) combined
     \<and> map (\<lambda>r. Inr (fst r)) rows = map (\<lambda>p. strptime (date (snd p))) combined"
proof (induction combined arbitrary: rows)
  case Nil
  then show ?case by simp
next
  case (Cons p combined)
  obtain k vals where p: "p = (k, vals)" by (cases p)
  from Cons.prems obtain d1 d2 rest where
    d1: "strptime (date vals) = Inr d1" and d2: "strptime (base_date vals) = Inr d2"
    and rest: "data_rows strptime combined = Inr rest"
    and rows: "rows = (d1, cavallo_index vals, tmall_index vals, d2) # rest"
    by (auto simp: p split: sum.splits)
  from Cons.IH[OF rest] show ?case by (simp add: rows p d1)
qed

lemma save_indices_data_dates:
  assumes "save_indices_data strptime c t = Inr rows"
  shows "map (\<lambda>r. Inr (fst r)) rows = map strptime (first_seen (map date (c @ t)))"
proof -
  from assms have dr: "data_rows strptime (combined_rows c t) = Inr rows"
    by (simp add: save_indices_data_def)
  have "map (\<lambda>r. Inr (fst r)) rows = map (\<lambda>p. strptime (date (snd p))) (combined_rows c t)"
    using data_rows_Inr[OF dr] by simp
  also have "\<dots> = map (\<lambda>p. strptime (fst p)) (combined_rows c t)"
    by (rule map_cong) (simp_all add: combined_rows_date)
  also have "\<dots> = map strptime (map fst (combined_rows c t))"
    by (simp add: comp_def)
  finally show ?thesis by (simp only: keys_combined_rows)
qed

lemma sorted_first_seen: "sorted xs \<Longrightarrow> sorted (first_seen xs)"
proof (induction xs)
  case Nil
  show ?case by simp
next
  case (Cons x xs)
  then have "sorted (first_seen xs)" "\<forall>y \<in> set xs. x \<le> y" by simp_all
  then show ?case by (simp add: sorted_wrt_filter)
qed

text \<open>
  What \<open>save_indices_to_local_file\<close> writes, for every pair of inputs: one row per distinct
  date of either input, both index fields present, and \<open>0.0\<close> in an index field that no
  input record set for that date.
\<close>

lemma local_file_rows_and_defaults:
  "distinct (map date (save_indices_to_local_file c t))
   \<and> set (map date (save_indices_to_local_file c t)) = date ` set c \<union> date ` set t
   \<and> (\<forall>r \<in> set (save_indices_to_local_file c t).
        cavallo_index r \<noteq> None \<and> tmall_index r \<noteq> None
        \<and> (date r \<notin> date ` set c \<longrightarrow> cavallo_index r = Some 0)
        \<and> (date r \<notin> date ` set t \<longrightarrow> tmall_index r = Some 0))"
proof (intro conjI ballI impI)
  show "distinct (map date (save_indices_to_local_file c t))"
    by (simp only: local_file_dates distinct_first_seen)
  show "set (map date (save_indices_to_local_file c t)) = date ` set c \<union> date ` set t"
    by (simp only: local_file_dates set_first_seen) (simp add: image_Un)
next
  fix r assume r: "r \<in> set (save_indices_to_local_file c t)"
  show "cavallo_index r \<noteq> None" "tmall_index r \<noteq> None"
    by (rule local_file_defaults[OF r])+
  show "cavallo_index r = Some 0" if "date r \<notin> date ` set c"
    using that by (rule local_file_defaults(3)[OF r])
  show "tmall_index r = Some 0" if "date r \<notin> date ` set t"
    using that by (rule local_file_defaults(4)[OF r])
qed

subsection \<open>Order of the merged rows\<close>

text \<open>
  Claim C7, as amended. The merged rows come in the order in which their dates are first
  seen, the Cavallo records before the Tmall records, in \<open>save_indices_to_local_file\<close> and in
  the tuples of \<open>save_indices\<close> alike. The order is ascending by date when both inputs are
  ascending and every date of a Tmall record either occurs in the Cavallo input or is not
  earlier than any Cavallo date.
\<close>

theorem merge_insertion_order:
  "map date (save_indices_to_local_file c t) = first_seen (map date (c @ t))
   \<and> (\<forall>rows. save_indices_data strptime c t = Inr rows \<longrightarrow>
         map (\<lambda>r. Inr (fst r)) rows = map strptime (first_seen (map date (c @ t))))
   \<and> (sorted (map date c) \<and> sorted (map date t)
        \<and> (\<forall>x \<in> set t. date x \<in> date ` set c \<or> (\<forall>y \<in> set c. date y \<le> date x))
       \<longrightarrow> sorted (map date (save_indices_to_local_file c t)))"
proof (intro conjI allI impI)
  show "map date (save_indices_to_local_file c t) = first_seen (map date (c @ t))"
    by (rule local_file_dates)
next
  fix rows assume "save_indices_data strptime c t = Inr rows"
  then show "map (\<lambda>r. Inr (fst r)) rows = map strptime (first_seen (map date (c @ t)))"
    by (rule save_indices_data_dates)
next
  assume asm: "sorted (map date c) \<and> sorted (map date t)
        \<and> (\<forall>x \<in> set t. date x \<in> date ` set c \<or> (\<forall>y \<in> set c. date y \<le> date x))"
  have split: "first_seen (map date (c @ t))
     = first_seen (map date c) @ filter (\<lambda>y. y \<notin> set (map date c)) (first_seen (map date t))"
    by (simp add: first_seen_append)
  have 1: "sorted (first_seen (map date c))" using asm by (simp add: sorted_first_seen)
  have 2: "sorted (filter (\<lambda>y. y \<notin> set (map date c)) (first_seen (map date t)))"
    using asm by (simp add: sorted_first_seen sorted_wrt_filter)
  have 3: "\<forall>a \<in> set (first_seen (map date c)).
           \<forall>b \<in> set (filter (\<lambda>y. y \<notin> set (map date c)) (first_seen (map date t))). a \<le> b"
    using asm by auto
  show "sorted (map date (save_indices_to_local_file c t))"
    unfolding local_file_dates split using 1 2 3 by (simp only: sorted_append)
qed


text \<open>Claim C7 at concrete inputs that satisfy the condition.\<close>

theorem merge_insertion_order_witness:
  "sorted (map date [ex_cavallo ''2024-01-01'' 100, ex_cavallo ''2024-01-02'' 120])
   \<and> sorted (map date [ex_tmall ''2024-01-02'' 110, ex_tmall ''2024-01-03'' 105])
   \<and> map date (save_indices_to_local_file [ex_cavallo ''2024-01-01'' 100, ex_cavallo ''2024-01-02'' 120]
        [ex_tmall ''2024-01-02'' 110, ex_tmall ''2024-01-03'' 105])
       = [''2024-01-01'', ''2024-01-02'', ''2024-01-03'']
   \<and> sorted (map date (save_indices_to_local_file [ex_cavallo ''2024-01-01'' 100, ex_cavallo ''2024-01-02'' 120]
        [ex_tmall ''2024-01-02'' 110, ex_tmall ''2024-01-03'' 105]))
   \<and> save_indices_data ex_strptime [ex_cavallo ''2024-01-01'' 100, ex_cavallo ''2024-01-02'' 120]
        [ex_tmall ''2024-01-02'' 110, ex_tmall ''2024-01-03'' 105]
       = Inr [((2024, 1, 1), Some 100, None, (2024, 1, 1)),
              ((2024, 1, 2), Some 120, Some 110, (2024, 1, 1)),
              ((2024, 1, 3), None, Some 105, (2024, 1, 1))]"
  using merge_insertion_order[of "[ex_cavallo ''2024-01-01'' 100, ex_cavallo ''2024-01-02'' 120]"
      "[ex_tmall ''2024-01-02'' 110, ex_tmall ''2024-01-03'' 105]" ex_strptime]
  by (simp add: ex_defs merge_defs)


text \<open>
  Claim C7 as written fails: both inputs are ascending, the Tmall input has the date
  \<open>2024-01-02\<close> that the Cavallo input lacks, and the merged rows are not ascending.
\<close>

theorem merge_order_counterexample:
  "sorted (map date [ex_cavallo ''2024-01-01'' 100, ex_cavallo ''2024-01-03'' 120])
   \<and> sorted (map date [ex_tmall ''2024-01-01'' 100, ex_tmall ''2024-01-02'' 110, ex_tmall ''2024-01-03'' 105])
   \<and> map date (save_indices_to_local_file [ex_cavallo ''2024-01-01'' 100, ex_cavallo ''2024-01-03'' 120]
        [ex_tmall ''2024-01-01'' 100, ex_tmall ''2024-01-02'' 110, ex_tmall ''2024-01-03'' 105])
       = [''2024-01-01'', ''2024-01-03'', ''2024-01-02'']
   \<and> \<not> sorted (map date (save_indices_to_local_file [ex_cavallo ''2024-01-01'' 100, ex_cavallo ''2024-01-03'' 120]
        [ex_tmall ''2024-01-01'' 100, ex_tmall ''2024-01-02'' 110, ex_tmall ''2024-01-03'' 105]))"
  by (simp add: ex_defs merge_defs)


subsection \<open>Nothing to save\<close>

text \<open>
  Claim C10. When both input lists are empty, \<open>data\<close> is empty and \<open>save_indices\<close> returns
  with the store as it was, whatever the client would do with a batch: no insert is issued.
  \<open>insert_data\<close> itself returns at once on an empty list.
\<close>

theorem save_indices_empty_skips_insert:
  "save_indices_data strptime [] [] = Inr []
   \<and> save_indices strptime client [] [] st = Inr st
   \<and> insert_data client [] st = Inr st"
  by (simp add: save_indices_def save_indices_data_def combined_rows_def insert_data_def)


text \<open>Claim C10 with a client that raises on every batch.\<close>

theorem save_indices_empty_skips_insert_witness:
  "save_indices ex_strptime (\<lambda>batch st. Inl QueryError) [] [] (0 :: nat) = Inr 0"
  using save_indices_empty_skips_insert[of ex_strptime "\<lambda>batch st. Inl QueryError" "0 :: nat"]
  by simp


section \<open>Properties of the engines\<close>

lemmas source_defs = clickhouse_def determine_base_date_def get_base_prices_def get_all_dates_def
  get_category_weights_def get_category_averages_def category_averages_def rows_at_def py_dict_def
  mean_def
lemmas cavallo_defs = calculate_cavallo_index_def cavallo_try_def batch_size_def chunks.simps
  merge_base_def log_ratios_def grouped_mean_def cavallo_records_def
lemmas tmall_defs = calculate_tmall_index_def tmall_try_def tmall_value_def weighted_totals_def
  accumulate_def
lemmas value_defs = round4_def round_half_even_def strftime_def zero_pad_def digit_char_def
  upt_rec Let_def

lemma ex_db_cavallo:
  "calculate_cavallo_index (clickhouse ex_db) None =
     [\<lparr>date = ''2024-01-01'', cavallo_index = Some 100, tmall_index = None, base_date = ''2024-01-01''\<rparr>,
      \<lparr>date = ''2024-01-02'', cavallo_index = Some 120, tmall_index = None, base_date = ''2024-01-01''\<rparr>]"
  by (simp add: ex_db_def source_defs cavallo_defs value_defs)

lemma ex_db_tmall:
  "calculate_tmall_index (clickhouse ex_db) None =
     [\<lparr>date = ''2024-01-01'', cavallo_index = None, tmall_index = Some 100, base_date = ''2024-01-01''\<rparr>,
      \<lparr>date = ''2024-01-02'', cavallo_index = None, tmall_index = Some 120, base_date = ''2024-01-01''\<rparr>]"
  by (simp add: ex_db_def source_defs tmall_defs value_defs)

lemma ex_db_unweighted_cavallo:
  "calculate_cavallo_index (clickhouse ex_db_unweighted) None =
     [\<lparr>date = ''2024-01-01'', cavallo_index = Some 100, tmall_index = None, base_date = ''2024-01-01''\<rparr>]"
  by (simp add: ex_db_unweighted_def source_defs cavallo_defs value_defs)

lemma ex_db_unweighted_tmall:
  "calculate_tmall_index (clickhouse ex_db_unweighted) None =
     [\<lparr>date = ''2024-01-01'', cavallo_index = None, tmall_index = Some 100, base_date = ''2024-01-01''\<rparr>,
      \<lparr>date = ''2024-01-02'', cavallo_index = None, tmall_index = Some 0, base_date = ''2024-01-01''\<rparr>]"
  by (simp add: ex_db_unweighted_def source_defs tmall_defs value_defs)

lemma ex_db_thirds_cavallo:
  "calculate_cavallo_index (clickhouse ex_db_thirds) None =
     [\<lparr>date = ''2024-01-01'', cavallo_index = Some 100, tmall_index = None, base_date = ''2024-01-01''\<rparr>,
      \<lparr>date = ''2024-01-02'', cavallo_index = Some (333333 / 10000), tmall_index = None, base_date = ''2024-01-01''\<rparr>]"
  by (simp add: ex_db_thirds_def source_defs cavallo_defs value_defs)

lemma ex_db_thirds_tmall:
  "calculate_tmall_index (clickhouse ex_db_thirds) None =
     [\<lparr>date = ''2024-01-01'', cavallo_index = None, tmall_index = Some 100, base_date = ''2024-01-01''\<rparr>,
      \<lparr>date = ''2024-01-02'', cavallo_index = None, tmall_index = Some (333333 / 10000), base_date = ''2024-01-01''\<rparr>]"
  by (simp add: ex_db_thirds_def source_defs tmall_defs value_defs)

lemma cavallo_no_base_date:
  "determine_base_date ch sd = Inr None \<Longrightarrow> calculate_cavallo_index ch sd = []"
  by (simp add: calculate_cavallo_index_def cavallo_try_def split: sum.splits)

lemma tmall_loop_no_base_date:
  "tmall_loop ch ws ba None dates = Inr rs \<Longrightarrow> rs = []"
  by (induction dates) (auto split: sum.splits if_splits)

lemma tmall_no_base_date:
  "determine_base_date ch sd = Inr None \<Longrightarrow> calculate_tmall_index ch sd = []"
  by (auto simp: calculate_tmall_index_def tmall_try_def split: sum.splits dest: tmall_loop_no_base_date)

lemma fetch_batches_error:
  "batch \<in> set batches \<Longrightarrow> select_prices_in ch batch = Inl e \<Longrightarrow>
   \<exists>e'. fetch_batches ch batches = Inl e'"
  by (induction batches) (auto split: sum.splits)

lemma round4_grid: "round4 x = of_int (round_half_even (x * 10000)) / 10000"
  by (simp add: round4_def)

lemma round_half_even_close: "\<bar>of_int (round_half_even y) - y\<bar> \<le> 1 / 2"
proof -
  define r where "r = y - of_int \<lfloor>y\<rfloor>"
  have r: "0 \<le> r" "r < 1" unfolding r_def by linarith+
  have y: "y = of_int \<lfloor>y\<rfloor> + r" unfolding r_def by simp
  consider "r < 1 / 2" | "1 / 2 < r" | "r = 1 / 2" by linarith
  then show ?thesis
  proof cases
    case 1
    then have "round_half_even y = \<lfloor>y\<rfloor>"
      by (simp add: round_half_even_def Let_def r_def)
    with r 1 show ?thesis unfolding r_def by simp
  next
    case 2
    then have "round_half_even y = \<lfloor>y\<rfloor> + 1"
      by (simp add: round_half_even_def Let_def r_def)
    with r 2 show ?thesis unfolding r_def by simp
  next
    case 3
    then have "round_half_even y = \<lfloor>y\<rfloor> \<or> round_half_even y = \<lfloor>y\<rfloor> + 1"
      by (simp add: round_half_even_def Let_def r_def)
    with r 3 show ?thesis unfolding r_def by auto
  qed
qed

lemma round4_close: "\<bar>round4 x - x\<bar> \<le> 1 / 20000"
proof -
  have "\<bar>of_int (round_half_even (x * 10000)) - x * 10000\<bar> \<le> 1 / 2"
    by (rule round_half_even_close)
  then have "\<bar>(of_int (round_half_even (x * 10000)) - x * 10000) / 10000\<bar> \<le> (1 / 2) / 10000"
    by (simp add: abs_divide divide_right_mono del: of_int_diff)
  then show ?thesis
    by (simp add: round4_def diff_divide_distrib)
qed

lemma cavallo_emits:
  assumes "r \<in> set (calculate_cavallo_index ch sd)"
  shows "\<exists>bd base_prices all_price_rows d m.
       determine_base_date ch sd = Inr (Some bd)
       \<and> get_base_prices ch (Some bd) = Inr base_prices
       \<and> fetch_batches ch (chunks batch_size (map fst base_prices)) = Inr all_price_rows
       \<and> (d, m) \<in> set (grouped_mean (log_ratios (merge_base all_price_rows base_prices)))
       \<and> r = \<lparr>date = strftime d, cavallo_index = Some (round4 (exp m * 100)),
               tmall_index = None, base_date = strftime bd\<rparr>"
proof (cases "cavallo_try ch sd")
  case (Inl e)
  with assms show ?thesis by (simp add: calculate_cavallo_index_def)
next
  case (Inr rs)
  then obtain bd base_prices all_price_rows where
    bd: "determine_base_date ch sd = Inr (Some bd)"
    and bp: "get_base_prices ch (Some bd) = Inr base_prices"
    and fetch: "fetch_batches ch (chunks batch_size (map fst base_prices)) = Inr all_price_rows"
    and rs: "rs = cavallo_records bd (grouped_mean (log_ratios (merge_base all_price_rows base_prices)))"
    by (auto simp: cavallo_try_def split: sum.splits if_splits option.splits)
  from assms Inr rs have
    "r \<in> (\<lambda>(d, m). \<lparr>date = strftime d, cavallo_index = Some (round4 (exp m * 100)),
                    tmall_index = None, base_date = strftime bd\<rparr>)
           ` set (grouped_mean (log_ratios (merge_base all_price_rows base_prices)))"
    by (simp add: calculate_cavallo_index_def cavallo_records_def)
  then obtain p where p: "p \<in> set (grouped_mean (log_ratios (merge_base all_price_rows base_prices)))"
    and r: "r = (\<lambda>(d, m). \<lparr>date = strftime d, cavallo_index = Some (round4 (exp m * 100)),
                    tmall_index = None, base_date = strftime bd\<rparr>) p"
    by (rule imageE)
  obtain d m where dm: "p = (d, m)" by (cases p)
  from p r show ?thesis
    unfolding dm using bd bp fetch by (intro exI[of _ bd] exI[of _ base_prices] exI[of _ all_price_rows]
        exI[of _ d] exI[of _ m]) simp
qed

lemma tmall_loop_emits:
  "tmall_loop ch ws ba bdate dates = Inr rs \<Longrightarrow> r \<in> set rs \<Longrightarrow>
   \<exists>bd d current_avg. bdate = Some bd \<and> d \<in> set dates
      \<and> get_category_averages ch (Some d) = Inr current_avg
      \<and> r = \<lparr>date = strftime d, cavallo_index = None,
              tmall_index = Some (round4 (tmall_value ws ba current_avg)),
              base_date = strftime bd\<rparr>"
proof (induction dates arbitrary: rs)
  case Nil
  then show ?case by simp
next
  case (Cons d dates)
  show ?case
  proof (cases "get_category_averages ch (Some d)")
    case (Inl e)
    with Cons.prems show ?thesis by simp
  next
    case (Inr current_avg)
    show ?thesis
    proof (cases "current_avg = []")
      case True
      with Inr Cons.prems have "tmall_loop ch ws ba bdate dates = Inr rs" by simp
      from Cons.IH[OF this Cons.prems(2)] obtain bd' d' ca' where
        "bdate = Some bd'" "d' \<in> set dates"
        "get_category_averages ch (Some d') = Inr ca'"
        "r = \<lparr>date = strftime d', cavallo_index = None,
              tmall_index = Some (round4 (tmall_value ws ba ca')),
              base_date = strftime bd'\<rparr>"
        by blast
      then show ?thesis
        by (intro exI[of _ bd'] exI[of _ d'] exI[of _ ca']) simp
    next
      case False
      with Inr Cons.prems obtain bd results where
        bd: "bdate = Some bd"
        and rest: "tmall_loop ch ws ba bdate dates = Inr results"
        and rs: "rs = \<lparr>date = strftime d, cavallo_index = None,
                    tmall_index = Some (round4 (tmall_value ws ba current_avg)),
                    base_date = strftime bd\<rparr> # results"
        by (auto split: option.splits sum.splits)
      from Cons.prems(2) rs consider "r \<in> set results"
        | "r = \<lparr>date = strftime d, cavallo_index = None,
                    tmall_index = Some (round4 (tmall_value ws ba current_avg)),
                    base_date = strftime bd\<rparr>"
        by auto
      then show ?thesis
      proof cases
        case 1
        from Cons.IH[OF rest 1] obtain bd' d' ca' where
        "bdate = Some bd'" "d' \<in> set dates"
        "get_category_averages ch (Some d') = Inr ca'"
        "r = \<lparr>date = strftime d', cavallo_index = None,
              tmall_index = Some (round4 (tmall_value ws ba ca')),
              base_date = strftime bd'\<rparr>"
          by blast
        then show ?thesis
          by (intro exI[of _ bd'] exI[of _ d'] exI[of _ ca']) simp
      next
        case 2
        with bd Inr show ?thesis
          by (intro exI[of _ bd] exI[of _ d] exI[of _ current_avg]) simp
      qed
    qed
  qed
qed

lemma tmall_emits:
  assumes "r \<in> set (calculate_tmall_index ch sd)"
  shows "\<exists>bd category_weights base_avg dates d current_avg.
       determine_base_date ch sd = Inr (Some bd)
       \<and> get_category_weights ch = Inr category_weights
       \<and> get_category_averages ch (Some bd) = Inr base_avg
       \<and> get_all_dates ch = Inr dates \<and> d \<in> set dates
       \<and> get_category_averages ch (Some d) = Inr current_avg
       \<and> r = \<lparr>date = strftime d, cavallo_index = None,
               tmall_index = Some (round4 (tmall_value category_weights base_avg current_avg)),
               base_date = strftime bd\<rparr>"
proof (cases "tmall_try ch sd")
  case (Inl e)
  with assms show ?thesis by (simp add: calculate_tmall_index_def)
next
  case (Inr rs)
  then obtain bdate ws ba dates where
    bdate: "determine_base_date ch sd = Inr bdate"
    and ws: "get_category_weights ch = Inr ws"
    and ba: "get_category_averages ch bdate = Inr ba"
    and dates: "get_all_dates ch = Inr dates"
    and loop: "tmall_loop ch ws ba bdate dates = Inr rs"
    by (auto simp: tmall_try_def split: sum.splits if_splits)
  from assms Inr have "r \<in> set rs" by (simp add: calculate_tmall_index_def)
  from tmall_loop_emits[OF loop this] obtain bd d current_avg where
    "bdate = Some bd" "d \<in> set dates" "get_category_averages ch (Some d) = Inr current_avg"
    "r = \<lparr>date = strftime d, cavallo_index = None,
              tmall_index = Some (round4 (tmall_value ws ba current_avg)),
              base_date = strftime bd\<rparr>"
    by blast
  with bdate ws ba dates show ?thesis by blast
qed

lemma fold_update_distinct:
  "distinct (map fst acc) \<Longrightarrow>
   distinct (map fst (fold (\<lambda>row. AList.update (fst row) (snd row)) rows acc))"
  by (induction rows arbitrary: acc) (simp_all add: distinct_update)

lemma py_dict_keys_distinct: "distinct (map fst (py_dict rows))"
  by (simp add: py_dict_def fold_update_distinct)

lemma concat_chunks: "0 < n \<Longrightarrow> concat (chunks n xs) = xs"
proof (induction n xs rule: chunks.induct)
  case (1 n xs)
  show ?case
  proof (cases "xs = []")
    case True
    then show ?thesis by (simp add: chunks.simps)
  next
    case False
    with 1 have "concat (chunks n (drop n xs)) = drop n xs" by simp
    with False 1(2) show ?thesis by (subst chunks.simps) simp
  qed
qed

lemma select_prices_in_clickhouse:
  "select_prices_in (clickhouse db) pids = Inr (single_query db pids)"
  by (simp add: clickhouse_def single_query_def)

lemma fetch_batches_clickhouse:
  "fetch_batches (clickhouse db) batches = Inr (concat (map (single_query db) batches))"
  by (induction batches) (simp_all add: select_prices_in_clickhouse)

lemma mset_filter_disjoint:
  "\<forall>x \<in> set xs. \<not> (P x \<and> Q x) \<Longrightarrow>
   mset (filter (\<lambda>x. P x \<or> Q x) xs) = mset (filter P xs) + mset (filter Q xs)"
  by (induction xs) auto

lemma single_query_append:
  assumes "set b \<inter> set bs = {}"
  shows "mset (single_query db (b @ bs)) = mset (single_query db b) + mset (single_query db bs)"
proof -
  have "mset (filter (\<lambda>r. product_id r \<in> set b \<or> product_id r \<in> set bs) (daily_prices db))
        = mset (filter (\<lambda>r. product_id r \<in> set b) (daily_prices db))
          + mset (filter (\<lambda>r. product_id r \<in> set bs) (daily_prices db))"
    using assms by (intro mset_filter_disjoint) auto
  then show ?thesis
    unfolding single_query_def set_append Un_iff by (simp only: mset_map image_mset_union)
qed

lemma single_query_Nil: "single_query db [] = []"
  by (simp add: single_query_def)

lemma mset_batched:
  "distinct (concat batches) \<Longrightarrow>
   mset (concat (map (single_query db) batches)) = mset (single_query db (concat batches))"
proof (induction batches)
  case Nil
  show ?case by (simp add: single_query_Nil)
next
  case (Cons b batches)
  then have "set b \<inter> set (concat batches) = {}" "distinct (concat batches)" by auto
  with Cons.IH show ?case by (simp add: single_query_append)
qed


subsection \<open>The base date of an empty source\<close>

text \<open>
  Claim C5, as amended. When no explicit base date is supplied and the min-date query
  yields no row, \<open>_determine_base_date\<close> returns \<open>None\<close>; it raises nothing. Both engines
  then return the empty list.
\<close>

theorem no_data_base_date_is_None:
  "select_min_date ch = Inr [] \<Longrightarrow>
     determine_base_date ch None = Inr None
     \<and> calculate_cavallo_index ch None = [] \<and> calculate_tmall_index ch None = []"
proof -
  assume "select_min_date ch = Inr []"
  then have "determine_base_date ch None = Inr None"
    by (simp add: determine_base_date_def)
  then show ?thesis
    by (simp add: cavallo_no_base_date tmall_no_base_date)
qed


text \<open>Claim C5 on the source without rows.\<close>

theorem no_data_base_date_is_None_witness:
  "select_min_date empty_source = Inr []
   \<and> determine_base_date empty_source None = Inr None
   \<and> calculate_cavallo_index empty_source None = []
   \<and> calculate_tmall_index empty_source None = []"
proof -
  have h: "select_min_date empty_source = Inr []" by (simp add: empty_source_def)
  from no_data_base_date_is_None[OF h] h show ?thesis by simp
qed


text \<open>
  Claim C5 as written fails: on the source without rows \<open>_determine_base_date\<close> returns the
  value \<open>None\<close>, not an error.
\<close>

theorem determine_base_date_counterexample:
  "determine_base_date empty_source None = Inr None"
  by (simp add: determine_base_date_def empty_source_def)


subsection \<open>Fail-soft boundary of the Cavallo engine\<close>

text \<open>
  Claim C4. \<open>calculate_cavallo_index\<close> returns the empty list when the base date cannot be
  retrieved, when the query for the base prices raises, when the base prices are empty, when
  the query for some batch of product ids raises, and in general whenever its \<open>try\<close> block
  raises. The result is a list in every case: no exception reaches the caller.
\<close>

theorem cavallo_fail_soft:
  "(determine_base_date ch sd = Inl e \<longrightarrow> calculate_cavallo_index ch sd = [])
   \<and> (determine_base_date ch sd = Inr bd \<and> select_base_prices ch bd = Inl e
        \<longrightarrow> calculate_cavallo_index ch sd = [])
   \<and> (determine_base_date ch sd = Inr bd \<and> select_base_prices ch bd = Inr []
        \<longrightarrow> calculate_cavallo_index ch sd = [])
   \<and> (determine_base_date ch sd = Inr bd \<and> select_base_prices ch bd = Inr rows
        \<and> batch \<in> set (chunks batch_size (map fst (py_dict rows)))
        \<and> select_prices_in ch batch = Inl e
        \<longrightarrow> calculate_cavallo_index ch sd = [])
   \<and> (cavallo_try ch sd = Inl e \<longrightarrow> calculate_cavallo_index ch sd = [])"
proof (intro conjI impI)
  assume "determine_base_date ch sd = Inl e"
  then show "calculate_cavallo_index ch sd = []"
    by (simp add: calculate_cavallo_index_def cavallo_try_def)
next
  assume "determine_base_date ch sd = Inr bd \<and> select_base_prices ch bd = Inl e"
  then show "calculate_cavallo_index ch sd = []"
    by (simp add: calculate_cavallo_index_def cavallo_try_def get_base_prices_def)
next
  assume "determine_base_date ch sd = Inr bd \<and> select_base_prices ch bd = Inr []"
  then show "calculate_cavallo_index ch sd = []"
    by (simp add: calculate_cavallo_index_def cavallo_try_def get_base_prices_def py_dict_def)
next
  assume a: "determine_base_date ch sd = Inr bd \<and> select_base_prices ch bd = Inr rows
        \<and> batch \<in> set (chunks batch_size (map fst (py_dict rows)))
        \<and> select_prices_in ch batch = Inl e"
  then obtain e' where "fetch_batches ch (chunks batch_size (map fst (py_dict rows))) = Inl e'"
    using fetch_batches_error by blast
  with a show "calculate_cavallo_index ch sd = []"
    by (simp add: calculate_cavallo_index_def cavallo_try_def get_base_prices_def)
next
  assume "cavallo_try ch sd = Inl e"
  then show "calculate_cavallo_index ch sd = []"
    by (simp add: calculate_cavallo_index_def)
qed

text \<open>
  Claim C4 on concrete sources: every query raises; only the base-price query raises; the
  source has no rows; only the batch query raises.
\<close>

theorem cavallo_fail_soft_witness:
  "determine_base_date failing_source None = Inl QueryError
   \<and> calculate_cavallo_index failing_source None = []
   \<and> determine_base_date ((clickhouse ex_db)\<lparr>select_base_prices := \<lambda>d. Inl QueryError\<rparr>) None
       = Inr (Some (2024, 1, 1))
   \<and> calculate_cavallo_index ((clickhouse ex_db)\<lparr>select_base_prices := \<lambda>d. Inl QueryError\<rparr>) None = []
   \<and> determine_base_date empty_source None = Inr None
   \<and> select_base_prices empty_source None = Inr []
   \<and> calculate_cavallo_index empty_source None = []
   \<and> select_base_prices ((clickhouse ex_db)\<lparr>select_prices_in := \<lambda>pids. Inl QueryError\<rparr>) (Some (2024, 1, 1))
       = Inr [(''P1'', 10)]
   \<and> [''P1''] \<in> set (chunks batch_size (map fst (py_dict [(''P1'', 10 :: real)])))
   \<and> calculate_cavallo_index ((clickhouse ex_db)\<lparr>select_prices_in := \<lambda>pids. Inl QueryError\<rparr>) None = []
   \<and> cavallo_try failing_source None = Inl QueryError"
proof -
  let ?no_base = "(clickhouse ex_db)\<lparr>select_base_prices := \<lambda>d. Inl QueryError\<rparr>"
  let ?no_batch = "(clickhouse ex_db)\<lparr>select_prices_in := \<lambda>pids. Inl QueryError\<rparr>"
  have 1: "determine_base_date failing_source None = Inl QueryError"
    by (simp add: determine_base_date_def failing_source_def)
  have 2: "determine_base_date ?no_base None = Inr (Some (2024, 1, 1))"
    "select_base_prices ?no_base (Some (2024, 1, 1)) = Inl QueryError"
    by (simp_all add: ex_db_def source_defs)
  have 3: "determine_base_date empty_source None = Inr None"
    "select_base_prices empty_source None = Inr []"
    by (simp_all add: determine_base_date_def empty_source_def)
  have 4: "determine_base_date ?no_batch None = Inr (Some (2024, 1, 1))"
    "select_base_prices ?no_batch (Some (2024, 1, 1)) = Inr [(''P1'', 10)]"
    "[''P1''] \<in> set (chunks batch_size (map fst (py_dict [(''P1'', 10 :: real)])))"
    "select_prices_in ?no_batch [''P1''] = Inl QueryError"
    by (simp_all add: ex_db_def source_defs batch_size_def chunks.simps)
  have 5: "cavallo_try failing_source None = Inl QueryError"
    by (simp add: cavallo_try_def 1)
  from cavallo_fail_soft[of failing_source None QueryError] 1
  have a: "calculate_cavallo_index failing_source None = []" by blast
  from cavallo_fail_soft[of ?no_base None QueryError "Some (2024, 1, 1)"] 2
  have b: "calculate_cavallo_index ?no_base None = []" by blast
  from cavallo_fail_soft[of empty_source None _ None] 3
  have c: "calculate_cavallo_index empty_source None = []" by blast
  from cavallo_fail_soft[of ?no_batch None QueryError "Some (2024, 1, 1)" "[(''P1'', 10)]" "[''P1'']"] 4
  have d: "calculate_cavallo_index ?no_batch None = []" by blast
  from 1 2 3 4 5 a b c d show ?thesis by simp
qed


subsection \<open>Rounding\<close>

text \<open>
  Claim C9. Every record that \<open>calculate_cavallo_index\<close> emits belongs to a date of the
  grouped table, and its index is the computed value \<open>exp m * 100\<close> of that date (\<open>m\<close> the
  mean log ratio) rounded at the fourth decimal place: a whole multiple of \<open>0.0001\<close> within
  \<open>0.00005\<close> of the computed value. Every record that \<open>calculate_tmall_index\<close> emits
  belongs to a date of the date list, and its index is the weighted index of that date
  rounded in the same way.
\<close>

theorem emitted_values_rounded:
  "(\<forall>r \<in> set (calculate_cavallo_index ch sd).
      \<exists>bd base_prices all_price_rows d m v.
        determine_base_date ch sd = Inr (Some bd)
        \<and> get_base_prices ch (Some bd) = Inr base_prices
        \<and> fetch_batches ch (chunks batch_size (map fst base_prices)) = Inr all_price_rows
        \<and> (d, m) \<in> set (grouped_mean (log_ratios (merge_base all_price_rows base_prices)))
        \<and> r = \<lparr>date = strftime d, cavallo_index = Some v, tmall_index = None,
                base_date = strftime bd\<rparr>
        \<and> v = round4 (exp m * 100)
        \<and> (\<exists>k :: int. v = of_int k / 10000)
        \<and> \<bar>v - exp m * 100\<bar> \<le> 1 / 20000)
   \<and> (\<forall>r \<in> set (calculate_tmall_index ch sd).
      \<exists>bd category_weights base_avg dates d current_avg v.
        determine_base_date ch sd = Inr (Some bd)
        \<and> get_category_weights ch = Inr category_weights
        \<and> get_category_averages ch (Some bd) = Inr base_avg
        \<and> get_all_dates ch = Inr dates \<and> d \<in> set dates
        \<and> get_category_averages ch (Some d) = Inr current_avg
        \<and> r = \<lparr>date = strftime d, cavallo_index = None, tmall_index = Some v,
                base_date = strftime bd\<rparr>
        \<and> v = round4 (tmall_value category_weights base_avg current_avg)
        \<and> (\<exists>k :: int. v = of_int k / 10000)
        \<and> \<bar>v - tmall_value category_weights base_avg current_avg\<bar> \<le> 1 / 20000)"
proof (intro conjI ballI)
  fix r assume "r \<in> set (calculate_cavallo_index ch sd)"
  from cavallo_emits[OF this] obtain bd base_prices all_price_rows d m where
    "determine_base_date ch sd = Inr (Some bd)"
    "get_base_prices ch (Some bd) = Inr base_prices"
    "fetch_batches ch (chunks batch_size (map fst base_prices)) = Inr all_price_rows"
    "(d, m) \<in> set (grouped_mean (log_ratios (merge_base all_price_rows base_prices)))"
    "r = \<lparr>date = strftime d, cavallo_index = Some (round4 (exp m * 100)),
               tmall_index = None, base_date = strftime bd\<rparr>"
    by blast
  moreover have "\<exists>k :: int. round4 (exp m * 100) = of_int k / 10000"
    using round4_grid by blast
  moreover have "\<bar>round4 (exp m * 100) - exp m * 100\<bar> \<le> 1 / 20000"
    by (rule round4_close)
  ultimately show "\<exists>bd base_prices all_price_rows d m v.
        determine_base_date ch sd = Inr (Some bd)
        \<and> get_base_prices ch (Some bd) = Inr base_prices
        \<and> fetch_batches ch (chunks batch_size (map fst base_prices)) = Inr all_price_rows
        \<and> (d, m) \<in> set (grouped_mean (log_ratios (merge_base all_price_rows base_prices)))
        \<and> r = \<lparr>date = strftime d, cavallo_index = Some v, tmall_index = None,
                base_date = strftime bd\<rparr>
        \<and> v = round4 (exp m * 100)
        \<and> (\<exists>k :: int. v = of_int k / 10000)
        \<and> \<bar>v - exp m * 100\<bar> \<le> 1 / 20000"
    by blast
next
  fix r assume "r \<in> set (calculate_tmall_index ch sd)"
  from tmall_emits[OF this] obtain bd ws ba dates d ca where
    "determine_base_date ch sd = Inr (Some bd)"
    "get_category_weights ch = Inr ws"
    "get_category_averages ch (Some bd) = Inr ba"
    "get_all_dates ch = Inr dates" "d \<in> set dates"
    "get_category_averages ch (Some d) = Inr ca"
    "r = \<lparr>date = strftime d, cavallo_index = None,
               tmall_index = Some (round4 (tmall_value ws ba ca)), base_date = strftime bd\<rparr>"
    by blast
  moreover have "\<exists>k :: int. round4 (tmall_value ws ba ca) = of_int k / 10000"
    using round4_grid by blast
  moreover have "\<bar>round4 (tmall_value ws ba ca) - tmall_value ws ba ca\<bar> \<le> 1 / 20000"
    by (rule round4_close)
  ultimately show "\<exists>bd category_weights base_avg dates d current_avg v.
        determine_base_date ch sd = Inr (Some bd)
        \<and> get_category_weights ch = Inr category_weights
        \<and> get_category_averages ch (Some bd) = Inr base_avg
        \<and> get_all_dates ch = Inr dates \<and> d \<in> set dates
        \<and> get_category_averages ch (Some d) = Inr current_avg
        \<and> r = \<lparr>date = strftime d, cavallo_index = None, tmall_index = Some v,
                base_date = strftime bd\<rparr>
        \<and> v = round4 (tmall_value category_weights base_avg current_avg)
        \<and> (\<exists>k :: int. v = of_int k / 10000)
        \<and> \<bar>v - tmall_value category_weights base_avg current_avg\<bar> \<le> 1 / 20000"
    by blast
qed

text \<open>
  Claim C9 on a sample table: both engines compute 100/3 for the second day and emit
  33.3333.
\<close>

theorem emitted_values_rounded_witness:
  "\<lparr>date = ''2024-01-02'', cavallo_index = Some (333333 / 10000), tmall_index = None,
     base_date = ''2024-01-01''\<rparr>
     \<in> set (calculate_cavallo_index (clickhouse ex_db_thirds) None)
   \<and> (\<exists>m. Some (333333 / 10000 :: real) = Some (round4 (exp m * 100))
          \<and> \<bar>333333 / 10000 - exp m * 100\<bar> \<le> 1 / 20000)
   \<and> \<lparr>date = ''2024-01-02'', cavallo_index = None, tmall_index = Some (333333 / 10000),
       base_date = ''2024-01-01''\<rparr>
     \<in> set (calculate_tmall_index (clickhouse ex_db_thirds) None)
   \<and> (\<exists>category_weights base_avg current_avg.
          Some (333333 / 10000 :: real) = Some (round4 (tmall_value category_weights base_avg current_avg))
          \<and> \<bar>333333 / 10000 - tmall_value category_weights base_avg current_avg\<bar> \<le> 1 / 20000)"
proof -
  let ?c = "\<lparr>date = ''2024-01-02'', cavallo_index = Some (333333 / 10000), tmall_index = None,
     base_date = ''2024-01-01''\<rparr>"
  let ?t = "\<lparr>date = ''2024-01-02'', cavallo_index = None, tmall_index = Some (333333 / 10000),
       base_date = ''2024-01-01''\<rparr>"
  have c: "?c \<in> set (calculate_cavallo_index (clickhouse ex_db_thirds) None)"
    by (simp add: ex_db_thirds_cavallo)
  have t: "?t \<in> set (calculate_tmall_index (clickhouse ex_db_thirds) None)"
    by (simp add: ex_db_thirds_tmall)
  note inst = emitted_values_rounded[of "clickhouse ex_db_thirds" None]
  from inst c obtain bd d m v where
    r: "?c = \<lparr>date = strftime d, cavallo_index = Some v, tmall_index = None,
                base_date = strftime bd\<rparr>"
    and v: "v = round4 (exp m * 100)" and close: "\<bar>v - exp m * 100\<bar> \<le> 1 / 20000"
    by blast
  from r have veq: "v = 333333 / 10000" by simp
  have c': "\<exists>m. Some (333333 / 10000 :: real) = Some (round4 (exp m * 100))
          \<and> \<bar>333333 / 10000 - exp m * 100\<bar> \<le> 1 / 20000"
  proof (intro exI[of _ m] conjI)
    show "Some (333333 / 10000 :: real) = Some (round4 (exp m * 100))"
      by (simp only: v[symmetric] veq)
    show "\<bar>333333 / 10000 - exp m * 100\<bar> \<le> 1 / 20000"
      using close unfolding veq .
  qed
  from inst t obtain bd' d' ws ba ca w where
    r': "?t = \<lparr>date = strftime d', cavallo_index = None, tmall_index = Some w,
                base_date = strftime bd'\<rparr>"
    and w: "w = round4 (tmall_value ws ba ca)"
    and close': "\<bar>w - tmall_value ws ba ca\<bar> \<le> 1 / 20000"
    by blast
  from r' have weq: "w = 333333 / 10000" by simp
  have t': "\<exists>category_weights base_avg current_avg.
          Some (333333 / 10000 :: real) = Some (round4 (tmall_value category_weights base_avg current_avg))
          \<and> \<bar>333333 / 10000 - tmall_value category_weights base_avg current_avg\<bar> \<le> 1 / 20000"
  proof (rule exI[of _ ws], rule exI[of _ ba], rule exI[of _ ca], intro conjI)
    show "Some (333333 / 10000 :: real) = Some (round4 (tmall_value ws ba ca))"
      by (simp only: w[symmetric] weq)
    show "\<bar>333333 / 10000 - tmall_value ws ba ca\<bar> \<le> 1 / 20000"
      using close' unfolding weq .
  qed
  from c c' t t' show ?thesis by blast
qed

subsection \<open>Batched retrieval\<close>

text \<open>
  Claim C8. For every dictionary of base prices, the batched queries of
  \<open>calculate_cavallo_index\<close> (chunks of 1000 product ids) all succeed on a table, and their
  concatenation has the same multiset of rows as the single query over the whole product set.
\<close>

theorem batched_fetch_is_single_query:
  "\<exists>batched.
     fetch_batches (clickhouse db) (chunks batch_size (map fst (py_dict base_prices))) = Inr batched
     \<and> mset batched = mset (single_query db (map fst (py_dict base_prices)))"
proof -
  let ?pids = "map fst (py_dict base_prices)"
  have c: "concat (chunks batch_size ?pids) = ?pids"
    by (rule concat_chunks) (simp add: batch_size_def)
  have "mset (concat (map (single_query db) (chunks batch_size ?pids)))
        = mset (single_query db (concat (chunks batch_size ?pids)))"
    by (rule mset_batched) (simp only: c py_dict_keys_distinct)
  then show ?thesis
    by (simp only: fetch_batches_clickhouse c) simp
qed

text \<open>Claim C8 on the sample table.\<close>

theorem batched_fetch_is_single_query_witness:
  "fetch_batches (clickhouse ex_db) (chunks batch_size (map fst (py_dict [(''P1'', 10 :: real)])))
     = Inr [((2024, 1, 1), ''P1'', 10), ((2024, 1, 2), ''P1'', 12)]
   \<and> single_query ex_db (map fst (py_dict [(''P1'', 10 :: real)]))
     = [((2024, 1, 1), ''P1'', 10), ((2024, 1, 2), ''P1'', 12)]"
  using batched_fetch_is_single_query[of ex_db "[(''P1'', 10)]"]
  by (simp add: ex_db_def source_defs single_query_def batch_size_def chunks.simps)

subsection \<open>An index field that no record set\<close>

text \<open>
  Claim C1, evaluated on the records that the two engines emit for a sample table. The
  product of the second day has no base price, so that this date occurs only in the Tmall
  input and no record sets its Cavallo index. \<open>save_indices_to_local_file\<close> writes \<open>0.0\<close>
  there; the tuple that \<open>save_indices\<close> builds for the insert carries \<open>None\<close>.
\<close>

theorem save_indices_null_for_unset_field:
  "save_indices_data ex_strptime
       (calculate_cavallo_index (clickhouse ex_db_unweighted) None)
       (calculate_tmall_index (clickhouse ex_db_unweighted) None)
     = Inr [((2024, 1, 1), Some 100, Some 100, (2024, 1, 1)),
            ((2024, 1, 2), None, Some 0, (2024, 1, 1))]
   \<and> save_indices_to_local_file
       (calculate_cavallo_index (clickhouse ex_db_unweighted) None)
       (calculate_tmall_index (clickhouse ex_db_unweighted) None)
     = [\<lparr>date = ''2024-01-01'', cavallo_index = Some 100, tmall_index = Some 100, base_date = ''2024-01-01''\<rparr>,
        \<lparr>date = ''2024-01-02'', cavallo_index = Some 0, tmall_index = Some 0, base_date = ''2024-01-01''\<rparr>]"
  unfolding ex_db_unweighted_cavallo ex_db_unweighted_tmall
  by (simp add: ex_defs merge_defs)


subsection \<open>The engines on a table\<close>

lemma update_append_new:
  "k \<notin> fst ` set al \<Longrightarrow> AList.update k v al = al @ [(k, v)]"
  by (induction al) auto

lemma fold_update_append:
  "distinct (map fst (acc @ rows)) \<Longrightarrow>
   fold (\<lambda>row. AList.update (fst row) (snd row)) rows acc = acc @ rows"
proof (induction rows arbitrary: acc)
  case Nil
  show ?case by simp
next
  case (Cons row rows)
  from Cons.prems have new: "fst row \<notin> fst ` set acc" by auto
  from Cons.prems have "distinct (map fst ((acc @ [row]) @ rows))" by simp
  from Cons.IH[OF this] show ?case
    by (simp add: update_append_new[OF new])
qed

lemma py_dict_distinct: "distinct (map fst rows) \<Longrightarrow> py_dict rows = rows"
  using fold_update_append[of "[]" rows] by (simp add: py_dict_def)

lemma fold_update_nonempty:
  "acc \<noteq> [] \<Longrightarrow> fold (\<lambda>row. AList.update (fst row) (snd row)) rows acc \<noteq> []"
  by (induction rows arbitrary: acc) simp_all

lemma py_dict_eq_Nil [simp]: "py_dict rows = [] \<longleftrightarrow> rows = []"
  by (cases rows) (simp_all add: py_dict_def fold_update_nonempty)

lemma category_averages_keys:
  "map fst (category_averages db d) = first_seen (map category_id (rows_at db d))"
  by (simp add: category_averages_def comp_def)

lemma py_dict_category_averages [simp]:
  "py_dict (category_averages db d) = category_averages db d"
  by (rule py_dict_distinct) (simp add: category_averages_keys)

lemma first_seen_eq_Nil [simp]: "first_seen xs = [] \<longleftrightarrow> xs = []"
  by (cases xs) simp_all

lemma category_averages_eq_Nil: "category_averages db d = [] \<longleftrightarrow> rows_at db d = []"
  by (simp add: category_averages_def)

lemma get_category_averages_clickhouse [simp]:
  "get_category_averages (clickhouse db) d = Inr (category_averages db d)"
  by (simp add: get_category_averages_def clickhouse_def)

lemma get_category_weights_clickhouse [simp]:
  "get_category_weights (clickhouse db) = Inr (py_dict (categories db))"
  by (simp add: get_category_weights_def clickhouse_def)

lemma get_all_dates_clickhouse [simp]:
  "get_all_dates (clickhouse db) = Inr (sort (remdups (map row_date (daily_prices db))))"
  by (simp add: get_all_dates_def clickhouse_def)

lemma tmall_loop_clickhouse:
  "tmall_loop (clickhouse db) (py_dict (categories db)) (category_averages db (Some bd)) (Some bd) dates
     = Inr (map (tmall_record db bd) (filter (\<lambda>d. category_averages db (Some d) \<noteq> []) dates))"
  by (induction dates) (simp_all add: tmall_record_def)

lemma tmall_try_clickhouse:
  assumes "determine_base_date (clickhouse db) sd = Inr (Some bd)"
    and "categories db \<noteq> []" and "category_averages db (Some bd) \<noteq> []"
  shows "calculate_tmall_index (clickhouse db) sd
     = map (tmall_record db bd) (filter (\<lambda>d. category_averages db (Some d) \<noteq> [])
          (sort (remdups (map row_date (daily_prices db)))))"
  using assms by (simp add: calculate_tmall_index_def tmall_try_def tmall_loop_clickhouse)

lemma dated_rows:
  "category_averages db (Some d) \<noteq> [] \<Longrightarrow> d \<in> set (sort (remdups (map row_date (daily_prices db))))"
proof -
  assume "category_averages db (Some d) \<noteq> []"
  then have "rows_at db (Some d) \<noteq> []" by (simp add: category_averages_eq_Nil)
  then obtain r where "r \<in> set (rows_at db (Some d))" by (cases "rows_at db (Some d)") auto
  then have "r \<in> set (daily_prices db)" "row_date r = d" by (auto simp: rows_at_def)
  then show ?thesis by auto
qed

lemma tmall_record_emitted:
  assumes "determine_base_date (clickhouse db) sd = Inr (Some bd)"
    and "categories db \<noteq> []" and "category_averages db (Some bd) \<noteq> []"
    and "category_averages db (Some d) \<noteq> []"
  shows "tmall_record db bd d \<in> set (calculate_tmall_index (clickhouse db) sd)"
  using dated_rows[OF assms(4)] assms(4)
  by (simp add: tmall_try_clickhouse[OF assms(1-3)])

lemma round4_0 [simp]: "round4 0 = 0"
  by (simp add: round4_def round_half_even_def)

lemma round4_100 [simp]: "round4 100 = 100"
  by (simp add: round4_def round_half_even_def)

text \<open>The inner loop when the current averages are the base averages.\<close>

lemma accumulate_base_equal:
  assumes "map_of ba (fst item) = Some (snd item)" and "fst acc = snd acc"
  shows "fst (accumulate ws ba item acc) = snd (accumulate ws ba item acc)"
  using assms by (simp add: accumulate_def Let_def)

lemma fold_accumulate_base_equal:
  "\<forall>item \<in> set items. map_of ba (fst item) = Some (snd item) \<Longrightarrow> fst acc = snd acc \<Longrightarrow>
   fst (fold (accumulate ws ba) items acc) = snd (fold (accumulate ws ba) items acc)"
proof (induction items arbitrary: acc)
  case Nil
  then show ?case by simp
next
  case (Cons item items)
  from Cons.prems have "fst (accumulate ws ba item acc) = snd (accumulate ws ba item acc)"
    by (intro accumulate_base_equal) simp_all
  with Cons show ?case by simp
qed

lemma weighted_totals_base_equal:
  "distinct (map fst ba) \<Longrightarrow> fst (weighted_totals ws ba ba) = snd (weighted_totals ws ba ba)"
  unfolding weighted_totals_def
  by (rule fold_accumulate_base_equal) auto

lemma snd_accumulate:
  "snd (accumulate ws ba item acc) = snd acc + contribution ws ba item"
  by (simp add: accumulate_def contribution_def Let_def split: option.splits)

lemma snd_fold_accumulate:
  "snd (fold (accumulate ws ba) items acc) = snd acc + sum_list (map (contribution ws ba) items)"
  by (induction items arbitrary: acc) (simp_all add: snd_accumulate)

lemma sum_list_pos:
  "\<forall>x \<in> set xs. (0 :: real) \<le> f x \<Longrightarrow> y \<in> set xs \<Longrightarrow> 0 < f y \<Longrightarrow> 0 < sum_list (map f xs)"
proof (induction xs)
  case Nil
  then show ?case by simp
next
  case (Cons x xs)
  have nonneg: "0 \<le> sum_list (map f xs)"
    using Cons.prems(1) by (intro sum_list_nonneg) auto
  show ?case
  proof (cases "y = x")
    case True
    with Cons.prems(3) nonneg show ?thesis by simp
  next
    case False
    with Cons.prems have "0 < sum_list (map f xs)" by (intro Cons.IH) auto
    moreover from Cons.prems(1) have "0 \<le> f x" by simp
    ultimately show ?thesis by simp
  qed
qed

lemma total_weight_positive:
  assumes nonneg: "\<forall>c w. map_of ws c = Some w \<longrightarrow> 0 \<le> w"
    and pos: "map_of ws c = Some w" "0 < w"
    and base: "map_of ba c = Some b" "0 < b"
  shows "0 < snd (weighted_totals ws ba ba)"
proof -
  have "\<forall>item \<in> set ba. 0 \<le> contribution ws ba item"
    using nonneg by (auto simp: contribution_def split: option.splits)
  moreover from base(1) have "(c, b) \<in> set ba" by (rule map_of_SomeD)
  moreover have "0 < contribution ws ba (c, b)"
    using pos base by (simp add: contribution_def)
  ultimately have "0 < sum_list (map (contribution ws ba) ba)"
    by (rule sum_list_pos)
  then show ?thesis by (simp add: weighted_totals_def snd_fold_accumulate)
qed

lemma distinct_at_date:
  "distinct (map (\<lambda>r. (f r, g r)) xs) \<Longrightarrow> distinct (map g (filter (\<lambda>r. Some (f r) = Some a) xs))"
  by (induction xs) (auto simp: rev_image_eqI)

lemma mem_merge_base:
  "(d, pid, p, b) \<in> set (merge_base df bp) \<longleftrightarrow> (d, pid, p) \<in> set df \<and> map_of bp pid = Some b"
  by (induction df) (auto simp: merge_base_def split: option.splits)

lemma mem_log_ratios:
  "(d, x) \<in> set (log_ratios df) \<longleftrightarrow>
     (\<exists>pid p b. (d, pid, p, b) \<in> set df \<and> 0 < p \<and> 0 < b \<and> x = ln (p / b))"
  by (induction df) (auto simp: log_ratios_def)

lemma mem_single_query:
  "(d, pid, p) \<in> set (single_query db pids) \<longleftrightarrow>
     (\<exists>r \<in> set (daily_prices db). row_date r = d \<and> product_id r = pid \<and> price r = p) \<and> pid \<in> set pids"
  by (auto simp: single_query_def image_iff)

lemma fetched_rows:
  "\<exists>rows. fetch_batches (clickhouse db) (chunks batch_size (map fst (py_dict base_prices))) = Inr rows
     \<and> set rows = set (single_query db (map fst (py_dict base_prices)))"
proof -
  let ?pids = "map fst (py_dict base_prices)"
  have c: "concat (chunks batch_size ?pids) = ?pids"
    by (rule concat_chunks) (simp add: batch_size_def)
  have "mset (concat (map (single_query db) (chunks batch_size ?pids)))
        = mset (single_query db (concat (chunks batch_size ?pids)))"
    by (rule mset_batched) (simp only: c py_dict_keys_distinct)
  then have "set (concat (map (single_query db) (chunks batch_size ?pids)))
        = set (single_query db ?pids)"
    unfolding c by (rule mset_eq_setD)
  then show ?thesis
    by (simp only: fetch_batches_clickhouse) simp
qed

lemma mean_zeros: "\<forall>x \<in> set xs. x = 0 \<Longrightarrow> mean xs = 0"
proof -
  assume "\<forall>x \<in> set xs. x = 0"
  then have "sum_list xs = 0" by (induction xs) simp_all
  then show ?thesis by (simp add: mean_def)
qed

lemma grouped_mean_zero:
  assumes "(d, 0) \<in> set df" and "\<And>x. (d, x) \<in> set df \<Longrightarrow> x = 0"
  shows "(d, 0) \<in> set (grouped_mean df)"
proof -
  have "mean (map snd (filter (\<lambda>row. fst row = d) df)) = 0"
    using assms(2) by (intro mean_zeros) auto
  moreover have "d \<in> set (sort (remdups (map fst df)))"
    using assms(1) by (auto simp: rev_image_eqI)
  ultimately show ?thesis
    unfolding grouped_mean_def by (auto simp: image_iff)
qed

subsection \<open>The Cavallo index of the base date\<close>

text \<open>
  Claim C2. On every table that has a row dated exactly the base date with a positive price,
  and at most one price row per date and product, \<open>calculate_cavallo_index\<close> emits a record
  for the base date whose Cavallo index is exactly 100.
\<close>

theorem cavallo_base_date_is_100:
  assumes base: "determine_base_date (clickhouse db) sd = Inr (Some bd)"
    and row: "\<exists>r \<in> set (daily_prices db). row_date r = bd \<and> 0 < price r"
    and uniq: "distinct (map (\<lambda>r. (row_date r, product_id r)) (daily_prices db))"
  shows "\<lparr>date = strftime bd, cavallo_index = Some 100, tmall_index = None, base_date = strftime bd\<rparr>
           \<in> set (calculate_cavallo_index (clickhouse db) sd)"
proof -
  let ?base_rows = "map (\<lambda>r. (product_id r, price r)) (rows_at db (Some bd))"
  have dist: "distinct (map fst ?base_rows)"
    using distinct_at_date[OF uniq, of bd] by (simp add: rows_at_def comp_def)
  have bp: "get_base_prices (clickhouse db) (Some bd) = Inr ?base_rows"
    by (simp add: get_base_prices_def clickhouse_def py_dict_distinct[OF dist])
  have dict: "py_dict ?base_rows = ?base_rows" by (rule py_dict_distinct[OF dist])
  from row obtain r0 where r0: "r0 \<in> set (daily_prices db)" "row_date r0 = bd" "0 < price r0"
    by blast
  then have r0_base: "(product_id r0, price r0) \<in> set ?base_rows"
    by (auto simp: rows_at_def image_iff)
  then have nonempty: "?base_rows \<noteq> []" by auto
  from fetched_rows[of db ?base_rows] obtain all_price_rows where
    fetch: "fetch_batches (clickhouse db) (chunks batch_size (map fst ?base_rows)) = Inr all_price_rows"
    and rows: "set all_price_rows = set (single_query db (map fst ?base_rows))"
    unfolding dict by blast
  have "product_id r0 \<in> set (map fst ?base_rows)"
    using r0_base by (metis fst_conv imageI set_map)
  with r0 have in_all: "(bd, product_id r0, price r0) \<in> set all_price_rows"
    unfolding rows mem_single_query by blast
  then have all_nonempty: "all_price_rows \<noteq> []" by auto
  let ?lr = "log_ratios (merge_base all_price_rows ?base_rows)"
  have lookup: "map_of ?base_rows pid = Some b \<longleftrightarrow> (pid, b) \<in> set ?base_rows" for pid b
    using dist by simp
  have one: "(bd, 0) \<in> set ?lr"
  proof -
    have "(bd, product_id r0, price r0, price r0) \<in> set (merge_base all_price_rows ?base_rows)"
      unfolding mem_merge_base lookup using in_all r0_base by simp
    with r0(3) have "(bd, ln (price r0 / price r0)) \<in> set ?lr"
      unfolding mem_log_ratios by blast
    with r0(3) show ?thesis by simp
  qed
  have zero: "x = 0" if "(bd, x) \<in> set ?lr" for x
  proof -
    from that obtain pid p b where
      j: "(bd, pid, p, b) \<in> set (merge_base all_price_rows ?base_rows)" and "0 < p" "0 < b"
      and x: "x = ln (p / b)"
      unfolding mem_log_ratios by blast
    from j have a: "(bd, pid, p) \<in> set all_price_rows" and b: "(pid, b) \<in> set ?base_rows"
      unfolding mem_merge_base lookup by simp_all
    from a obtain r where "r \<in> set (daily_prices db)" "row_date r = bd" "product_id r = pid" "price r = p"
      unfolding rows mem_single_query by blast
    then have "(pid, p) \<in> set ?base_rows" by (auto simp: rows_at_def image_iff)
    then have "map_of ?base_rows pid = Some p" by (simp only: lookup)
    moreover from b have "map_of ?base_rows pid = Some b" by (simp only: lookup)
    ultimately have "p = b" by simp
    with \<open>0 < b\<close> x show ?thesis by simp
  qed
  have "(bd, 0) \<in> set (grouped_mean ?lr)"
    using one zero by (rule grouped_mean_zero)
  then have "(\<lambda>(d, m). \<lparr>date = strftime d, cavallo_index = Some (round4 (exp m * 100)),
                    tmall_index = None, base_date = strftime bd\<rparr>) (bd, 0)
      \<in> set (cavallo_records bd (grouped_mean ?lr))"
    unfolding cavallo_records_def set_map by (rule imageI)
  then have "\<lparr>date = strftime bd, cavallo_index = Some 100, tmall_index = None, base_date = strftime bd\<rparr>
      \<in> set (cavallo_records bd (grouped_mean ?lr))"
    by simp
  moreover have "calculate_cavallo_index (clickhouse db) sd = cavallo_records bd (grouped_mean ?lr)"
    using nonempty all_nonempty fetch
    by (simp add: calculate_cavallo_index_def cavallo_try_def base bp)
  ultimately show ?thesis by simp
qed

text \<open>Claim C2 on the sample table.\<close>

theorem cavallo_base_date_is_100_witness:
  "determine_base_date (clickhouse ex_db) None = Inr (Some (2024, 1, 1))
   \<and> \<lparr>row_date = (2024, 1, 1), product_id = ''P1'', category_id = 1, price = 10\<rparr>
        \<in> set (daily_prices ex_db)
   \<and> distinct (map (\<lambda>r. (row_date r, product_id r)) (daily_prices ex_db))
   \<and> \<lparr>date = ''2024-01-01'', cavallo_index = Some 100, tmall_index = None, base_date = ''2024-01-01''\<rparr>
        \<in> set (calculate_cavallo_index (clickhouse ex_db) None)"
proof -
  have h1: "determine_base_date (clickhouse ex_db) None = Inr (Some (2024, 1, 1))"
    by (simp add: ex_db_def source_defs)
  have h2: "\<lparr>row_date = (2024, 1, 1), product_id = ''P1'', category_id = 1, price = 10\<rparr>
        \<in> set (daily_prices ex_db)"
    by (simp add: ex_db_def)
  then have h2': "\<exists>r \<in> set (daily_prices ex_db). row_date r = (2024, 1, 1) \<and> 0 < price r"
    by (rule rev_bexI) simp
  have h3: "distinct (map (\<lambda>r. (row_date r, product_id r)) (daily_prices ex_db))"
    by (simp add: ex_db_def)
  from cavallo_base_date_is_100[OF h1 h2' h3]
  have "\<lparr>date = ''2024-01-01'', cavallo_index = Some 100, tmall_index = None, base_date = ''2024-01-01''\<rparr>
        \<in> set (calculate_cavallo_index (clickhouse ex_db) None)"
    by (simp add: value_defs)
  with h1 h2 h3 show ?thesis by simp
qed


subsection \<open>A date without weight\<close>

text \<open>
  Claim C3, as amended. When the category weights and the category averages of the base
  date are both non-empty, then for every date whose category averages are non-empty and
  whose accumulated \<open>total_weight\<close> is 0 (or, more generally, not positive),
  \<open>calculate_tmall_index\<close> emits a record for that date with the Tmall index 0.
\<close>

theorem tmall_zero_total_weight:
  assumes "determine_base_date (clickhouse db) sd = Inr (Some bd)"
    and "categories db \<noteq> []"
    and "category_averages db (Some bd) \<noteq> []"
    and "category_averages db (Some d) \<noteq> []"
    and "snd (weighted_totals (py_dict (categories db)) (category_averages db (Some bd))
                (category_averages db (Some d))) \<le> 0"
  shows "\<lparr>date = strftime d, cavallo_index = None, tmall_index = Some 0, base_date = strftime bd\<rparr>
           \<in> set (calculate_tmall_index (clickhouse db) sd)"
proof -
  from assms(5) have "tmall_value (py_dict (categories db)) (category_averages db (Some bd))
                (category_averages db (Some d)) = 0"
    by (simp add: tmall_value_def Let_def)
  then have "tmall_record db bd d
     = \<lparr>date = strftime d, cavallo_index = None, tmall_index = Some 0, base_date = strftime bd\<rparr>"
    by (simp add: tmall_record_def)
  with tmall_record_emitted[OF assms(1-4)] show ?thesis by simp
qed


text \<open>
  Claim C3 on a sample table: on the second day the only category has no base average, so
  that the total weight is 0.
\<close>

theorem tmall_zero_total_weight_witness:
  "determine_base_date (clickhouse ex_db_unweighted) None = Inr (Some (2024, 1, 1))
   \<and> categories ex_db_unweighted = [(1, 1)]
   \<and> category_averages ex_db_unweighted (Some (2024, 1, 1)) = [(1, 10)]
   \<and> category_averages ex_db_unweighted (Some (2024, 1, 2)) = [(2, 5)]
   \<and> snd (weighted_totals (py_dict (categories ex_db_unweighted))
             (category_averages ex_db_unweighted (Some (2024, 1, 1)))
             (category_averages ex_db_unweighted (Some (2024, 1, 2)))) = 0
   \<and> \<lparr>date = ''2024-01-02'', cavallo_index = None, tmall_index = Some 0, base_date = ''2024-01-01''\<rparr>
        \<in> set (calculate_tmall_index (clickhouse ex_db_unweighted) None)"
proof -
  have h1: "determine_base_date (clickhouse ex_db_unweighted) None = Inr (Some (2024, 1, 1))"
    by (simp add: ex_db_unweighted_def source_defs)
  have h2: "categories ex_db_unweighted = [(1, 1)]"
    by (simp add: ex_db_unweighted_def)
  have h3: "category_averages ex_db_unweighted (Some (2024, 1, 1)) = [(1, 10)]"
    by (simp add: ex_db_unweighted_def category_averages_def rows_at_def mean_def)
  have h4: "category_averages ex_db_unweighted (Some (2024, 1, 2)) = [(2, 5)]"
    by (simp add: ex_db_unweighted_def category_averages_def rows_at_def mean_def)
  have h5: "snd (weighted_totals (py_dict (categories ex_db_unweighted))
             (category_averages ex_db_unweighted (Some (2024, 1, 1)))
             (category_averages ex_db_unweighted (Some (2024, 1, 2)))) = 0"
    unfolding h2 h3 h4 by (simp add: weighted_totals_def accumulate_def py_dict_def)
  from tmall_zero_total_weight[of ex_db_unweighted None "(2024, 1, 1)" "(2024, 1, 2)"] h1 h2 h3 h4 h5
  have "\<lparr>date = ''2024-01-02'', cavallo_index = None, tmall_index = Some 0, base_date = ''2024-01-01''\<rparr>
        \<in> set (calculate_tmall_index (clickhouse ex_db_unweighted) None)"
    by (simp add: value_defs)
  with h1 h2 h3 h4 h5 show ?thesis by simp
qed


text \<open>
  Claim C3 as written fails. On a table without category weights, and with a base date
  that has no price row, the averages of 2024-01-01 are non-empty and the accumulated
  total weight is 0, but the engine raises before its loop and emits no record.
\<close>

theorem tmall_zero_weight_counterexample:
  "category_averages ex_db_no_weights (Some (2024, 1, 1)) = [(1, 10)]
   \<and> snd (weighted_totals (py_dict (categories ex_db_no_weights))
             (category_averages ex_db_no_weights (Some (2024, 1, 1)))
             (category_averages ex_db_no_weights (Some (2024, 1, 1)))) = 0
   \<and> calculate_tmall_index (clickhouse ex_db_no_weights) None = []
   \<and> category_averages ex_db (Some (2024, 1, 1)) = [(1, 10)]
   \<and> snd (weighted_totals (py_dict (categories ex_db))
             (category_averages ex_db (Some (2024, 1, 5)))
             (category_averages ex_db (Some (2024, 1, 1)))) = 0
   \<and> calculate_tmall_index (clickhouse ex_db) (Some (2024, 1, 5)) = []"
  by (simp add: ex_db_no_weights_def ex_db_def source_defs tmall_defs value_defs)

subsection \<open>The Tmall index of the base date\<close>

text \<open>
  Claim C6, as amended. On every table where the weights are not negative, some category
  carries a positive weight, and every category that carries a nonzero weight has a base
  average above 0 (so that the averages of the base date are non-empty),
  \<open>calculate_tmall_index\<close> emits a record for the base date whose Tmall index is exactly 100.
\<close>

theorem tmall_base_date_is_100:
  assumes "determine_base_date (clickhouse db) sd = Inr (Some bd)"
    and "\<forall>c w. map_of (py_dict (categories db)) c = Some w \<longrightarrow> 0 \<le> w"
    and "\<exists>c w. map_of (py_dict (categories db)) c = Some w \<and> 0 < w"
    and "\<forall>c w. map_of (py_dict (categories db)) c = Some w \<and> w \<noteq> 0 \<longrightarrow>
           (\<exists>b. map_of (category_averages db (Some bd)) c = Some b \<and> 0 < b)"
  shows "\<lparr>date = strftime bd, cavallo_index = None, tmall_index = Some 100, base_date = strftime bd\<rparr>
           \<in> set (calculate_tmall_index (clickhouse db) sd)"
proof -
  let ?ws = "py_dict (categories db)" and ?ba = "category_averages db (Some bd)"
  from assms(3) obtain c w where cw: "map_of ?ws c = Some w" "0 < w" by blast
  with assms(4) obtain b where b: "map_of ?ba c = Some b" "0 < b" by force
  from cw have ws: "categories db \<noteq> []" by (auto simp: py_dict_def)
  from b have ba: "?ba \<noteq> []" by auto
  have pos: "0 < snd (weighted_totals ?ws ?ba ?ba)"
    by (rule total_weight_positive[OF assms(2) cw b])
  have "fst (weighted_totals ?ws ?ba ?ba) = snd (weighted_totals ?ws ?ba ?ba)"
    by (rule weighted_totals_base_equal) (simp add: category_averages_keys)
  with pos have "tmall_value ?ws ?ba ?ba = 100"
    by (simp add: tmall_value_def Let_def)
  then have "tmall_record db bd bd
     = \<lparr>date = strftime bd, cavallo_index = None, tmall_index = Some 100, base_date = strftime bd\<rparr>"
    by (simp add: tmall_record_def)
  with tmall_record_emitted[OF assms(1) ws ba ba] show ?thesis by simp
qed

text \<open>Claim C6 on the sample table.\<close>

theorem tmall_base_date_is_100_witness:
  "determine_base_date (clickhouse ex_db) None = Inr (Some (2024, 1, 1))
   \<and> py_dict (categories ex_db) = [(1, 1)]
   \<and> category_averages ex_db (Some (2024, 1, 1)) = [(1, 10)]
   \<and> \<lparr>date = ''2024-01-01'', cavallo_index = None, tmall_index = Some 100, base_date = ''2024-01-01''\<rparr>
        \<in> set (calculate_tmall_index (clickhouse ex_db) None)"
proof -
  have h1: "determine_base_date (clickhouse ex_db) None = Inr (Some (2024, 1, 1))"
    by (simp add: ex_db_def source_defs)
  have ws: "py_dict (categories ex_db) = [(1, 1)]"
    by (simp add: ex_db_def py_dict_def)
  have ba: "category_averages ex_db (Some (2024, 1, 1)) = [(1, 10)]"
    by (simp add: ex_db_def category_averages_def rows_at_def mean_def)
  have h2: "\<forall>c w. map_of (py_dict (categories ex_db)) c = Some w \<longrightarrow> 0 \<le> w"
    unfolding ws by (auto split: if_splits)
  have h3: "\<exists>c w. map_of (py_dict (categories ex_db)) c = Some w \<and> 0 < w"
    unfolding ws by (rule exI[of _ 1], rule exI[of _ 1]) simp
  have h4: "\<forall>c w. map_of (py_dict (categories ex_db)) c = Some w \<and> w \<noteq> 0 \<longrightarrow>
           (\<exists>b. map_of (category_averages ex_db (Some (2024, 1, 1))) c = Some b \<and> 0 < b)"
    unfolding ws ba by (auto split: if_splits)
  from tmall_base_date_is_100[OF h1 h2 h3 h4]
  have "\<lparr>date = ''2024-01-01'', cavallo_index = None, tmall_index = Some 100, base_date = ''2024-01-01''\<rparr>
        \<in> set (calculate_tmall_index (clickhouse ex_db) None)"
    by (simp add: value_defs)
  with h1 ws ba show ?thesis by simp
qed


text \<open>
  Claim C6 as written fails. With a single category of weight zero, and with two categories
  of weights 1 and -1 that both have a positive base average, the base averages are
  non-empty and every category of nonzero weight has a positive base average, but the
  total weight is 0 and the record of the base date carries the index 0.
\<close>

theorem tmall_base_date_counterexample:
  "category_averages ex_db_zero_weight (Some (2024, 1, 1)) = [(1, 10)]
   \<and> categories ex_db_zero_weight = [(1, 0)]
   \<and> calculate_tmall_index (clickhouse ex_db_zero_weight) None
       = [\<lparr>date = ''2024-01-01'', cavallo_index = None, tmall_index = Some 0, base_date = ''2024-01-01''\<rparr>]
   \<and> category_averages ex_db_cancelling (Some (2024, 1, 1)) = [(1, 10), (2, 20)]
   \<and> categories ex_db_cancelling = [(1, 1), (2, - 1)]
   \<and> calculate_tmall_index (clickhouse ex_db_cancelling) None
       = [\<lparr>date = ''2024-01-01'', cavallo_index = None, tmall_index = Some 0, base_date = ''2024-01-01''\<rparr>]"
  by (simp add: ex_db_zero_weight_def ex_db_cancelling_def source_defs tmall_defs value_defs)

end
